theory Spec2Isabelle
  imports Main
begin

section \<open>Dates and moments\<close>

text \<open>
  A JavaScript \<open>Date\<close> is its time value: milliseconds since the epoch, as an integer.
  Only valid dates are modelled; \<open>null\<close> is \<open>None\<close>. Calendar days are taken in UTC, so
  the day of a time value is its quotient by the milliseconds of a day.
\<close>

type_synonym Date = int
type_synonym DateRange = "Date option \<times> Date option"

definition msPerDay :: int where
  "msPerDay = 86400000"

definition dayOf :: "Date \<Rightarrow> int" where
  "dayOf t = t div msPerDay"

text \<open>
  A moment object is the invalid moment made from \<open>null\<close> (its parsing flags say
  \<open>nullInput\<close>), an invalid moment made from text that does not parse, or a valid
  moment carrying a time value. A variable of type \<open>moment.Moment\<close> that holds the
  JavaScript \<open>null\<close> is \<open>None\<close> of type \<open>moment option\<close>.
\<close>

datatype moment = NullInput | Invalid | Valid Date

text \<open>
  The moment library parses and prints under a format string. Both are parameters of the
  embedding: \<open>lib_parse text format\<close> is the time value the text denotes, if any, and
  \<open>lib_format t format\<close> prints a time value.
\<close>

record moment_lib =
  lib_parse :: "string \<Rightarrow> string \<Rightarrow> Date option"
  lib_format :: "Date \<Rightarrow> string \<Rightarrow> string"

text \<open>\<open>moment(input, format)\<close>, where the input is a string or \<open>null\<close>.\<close>

definition moment_of :: "moment_lib \<Rightarrow> string option \<Rightarrow> string \<Rightarrow> moment" where
  "moment_of L input fmt =
     (case input of
        None \<Rightarrow> NullInput
      | Some txt \<Rightarrow> (case lib_parse L txt fmt of None \<Rightarrow> Invalid | Some t \<Rightarrow> Valid t))"

fun isValid :: "moment \<Rightarrow> bool" where
  "isValid (Valid t) = True"
| "isValid NullInput = False"
| "isValid Invalid = False"

fun nullInput :: "moment \<Rightarrow> bool" where
  "nullInput NullInput = True"
| "nullInput Invalid = False"
| "nullInput (Valid t) = False"

text \<open>\<open>m.format(fmt)\<close>: an invalid moment prints as the library's fixed text.\<close>

definition moment_format :: "moment_lib \<Rightarrow> moment \<Rightarrow> string \<Rightarrow> string" where
  "moment_format L m fmt =
     (case m of Valid t \<Rightarrow> lib_format L t fmt | NullInput \<Rightarrow> ''Invalid date'' | Invalid \<Rightarrow> ''Invalid date'')"

text \<open>
  \<open>a.isBefore(b)\<close> compares time values and is false when either side is invalid; the
  argument may be \<open>null\<close>, which the library turns into an invalid moment.
\<close>

fun isBefore :: "moment \<Rightarrow> moment option \<Rightarrow> bool" where
  "isBefore (Valid a) (Some (Valid b)) = (a < b)"
| "isBefore m other = False"

text \<open>\<open>m.isBetween(lo, hi, "day", "[]")\<close>: inclusive at both ends, by calendar day.\<close>

definition isBetween_day_inclusive :: "moment \<Rightarrow> Date \<Rightarrow> Date \<Rightarrow> bool" where
  "isBetween_day_inclusive m lo hi =
     (case m of
        Valid t \<Rightarrow> dayOf lo \<le> dayOf t \<and> dayOf t \<le> dayOf hi
      | NullInput \<Rightarrow> False
      | Invalid \<Rightarrow> False)"

text \<open>
  \<open>a.diff(b, "days")\<close>: the difference of the time values in days, truncated toward
  zero; \<open>NaN\<close> (here \<open>None\<close>) when either side is invalid.
\<close>

definition truncDiv :: "int \<Rightarrow> int \<Rightarrow> int" where
  "truncDiv x y = sgn x * (\<bar>x\<bar> div y)"

fun diff_days :: "moment \<Rightarrow> moment option \<Rightarrow> int option" where
  "diff_days (Valid a) (Some (Valid b)) = Some (truncDiv (a - b) msPerDay)"
| "diff_days m other = None"

text \<open>\<open>m.toDate()\<close>: the date of a valid moment; an invalid moment gives an invalid date,
  which no comparison of day, month and year equates with anything (\<open>None\<close> here).\<close>

fun toDate :: "moment \<Rightarrow> Date option" where
  "toDate (Valid t) = Some t"
| "toDate NullInput = None"
| "toDate Invalid = None"

subsection \<open>The date utilities\<close>

text \<open>Modelled from the spec: \<open>./common/dateUtils\<close> is not among the sources. A DateValue
  wraps a calendar date or its absence: \<open>fromDateToMoment\<close> turns an absent date into the
  null-input moment and a date into the valid moment of the same time.\<close>

definition fromDateToMoment :: "Date option \<Rightarrow> moment" where
  "fromDateToMoment d = (case d of None \<Rightarrow> NullInput | Some t \<Rightarrow> Valid t)"

text \<open>Modelled from the spec: \<open>fromMomentToDate\<close> of \<open>./common/dateUtils\<close>; the date of a
  moment, absent for \<open>null\<close>. Its callers pass valid moments only.\<close>

definition fromMomentToDate :: "moment option \<Rightarrow> Date option" where
  "fromMomentToDate m = (case m of None \<Rightarrow> None | Some v \<Rightarrow> toDate v)"

text \<open>Modelled from the spec: \<open>fromDateRangeToMomentArray\<close> of \<open>./common/dateUtils\<close>; both
  ends of a range as moments.\<close>

definition fromDateRangeToMomentArray :: "DateRange \<Rightarrow> moment \<times> moment" where
  "fromDateRangeToMomentArray r = (fromDateToMoment (fst r), fromDateToMoment (snd r))"

text \<open>Modelled from the spec: \<open>toDateRange\<close> of \<open>./common/dateUtils\<close>; the pair of its
  arguments.\<close>

definition toDateRange :: "Date option \<Rightarrow> Date option \<Rightarrow> DateRange" where
  "toDateRange a b = (a, b)"

text \<open>Modelled from the spec: \<open>areSameDay\<close> of \<open>./common/dateUtils\<close>; equality of calendar
  dates ignores the time of day, and an absent or invalid date is the same day as
  nothing.\<close>

definition areSameDay :: "Date option \<Rightarrow> Date option \<Rightarrow> bool" where
  "areSameDay a b =
     (case a of None \<Rightarrow> False
      | Some x \<Rightarrow> (case b of None \<Rightarrow> False | Some y \<Rightarrow> dayOf x = dayOf y))"

text \<open>Modelled from the spec: \<open>toFormattedDateString\<close> of \<open>./common/dateUtils\<close>; a date
  printed under the format.\<close>

definition toFormattedDateString :: "moment_lib \<Rightarrow> Date \<Rightarrow> string \<Rightarrow> string" where
  "toFormattedDateString L d fmt = moment_format L (fromDateToMoment (Some d)) fmt"

text \<open>JavaScript's \<open>a < b\<close> on dates: each side becomes a number, \<open>null\<close> becomes 0.\<close>

definition js_number :: "Date option \<Rightarrow> int" where
  "js_number d = (case d of None \<Rightarrow> 0 | Some t \<Rightarrow> t)"

section \<open>The date range input\<close>

datatype DateRangeBoundary = START | END

text \<open>The props the component reads (\<open>IDateRangeInputProps\<close> and the base props).\<close>

record props =
  allowSingleDayRange :: bool
  allowUnboundedDateRange :: bool
  closeOnSelection :: bool
  disabled :: bool
  defaultValue :: "DateRange option"
  format :: string
  invalidDateMessage :: string
  invalidEndDateMessage :: string
  maxDate :: "Date option"
  minDate :: "Date option"
  openOnFocus :: bool
  outOfRangeMessage :: string
  selectAllOnFocus :: bool
  showIcon :: bool
  value_prop :: "DateRange option"

text \<open>A hover string of the state is \<open>undefined\<close>, \<open>null\<close> or a string: the constructor
  leaves it undefined, and \<open>render\<close> compares it with \<open>!=\<close> and with \<open>===\<close>.\<close>

datatype hover_string = HUndefined | HNull | HString string


text \<open>\<open>IDateRangeInputState\<close>. A value string is \<open>null\<close> or a string; a value is \<open>null\<close>
  or a moment; the two boundary fields are undefined until first set.\<close>

record state =
  isOpen :: bool
  mostRecentlyFocusedField :: "DateRangeBoundary option"
  isStartDateInputFocused :: bool
  startDateHoverValueString :: hover_string
  startDateValue :: "moment option"
  startDateValueString :: "string option"
  isEndDateInputFocused :: bool
  endDateHoverValueString :: hover_string
  endDateValue :: "moment option"
  endDateValueString :: "string option"
  boundaryToModify :: "DateRangeBoundary option"
  wasLastFocusChangeDueToHover :: bool

text \<open>
  What a handler does besides updating the state: calls on the two input elements, on the
  event, and the two output callbacks of the props. The component is mounted, so both
  input references are set.
\<close>

datatype effect =
    RefFocus DateRangeBoundary
  | RefBlur DateRangeBoundary
  | SelectAll
  | StopPropagation
  | CallOnChange DateRange
  | CallOnError "Date option"

datatype js_error = TypeError

text \<open>The string keys the generic handlers take.\<close>

datatype value_key = K_startDateValue | K_endDateValue
datatype value_string_key = K_startDateValueString | K_endDateValueString
datatype focus_key = K_isStartDateInputFocused | K_isEndDateInputFocused
datatype hover_key = K_startDateHoverValueString | K_endDateHoverValueString

fun set_value :: "value_key \<Rightarrow> moment option \<Rightarrow> state \<Rightarrow> state" where
  "set_value K_startDateValue v s = s\<lparr>startDateValue := v\<rparr>"
| "set_value K_endDateValue v s = s\<lparr>endDateValue := v\<rparr>"

fun set_value_string :: "value_string_key \<Rightarrow> string option \<Rightarrow> state \<Rightarrow> state" where
  "set_value_string K_startDateValueString v s = s\<lparr>startDateValueString := v\<rparr>"
| "set_value_string K_endDateValueString v s = s\<lparr>endDateValueString := v\<rparr>"

fun set_focus :: "focus_key \<Rightarrow> bool \<Rightarrow> state \<Rightarrow> state" where
  "set_focus K_isStartDateInputFocused v s = s\<lparr>isStartDateInputFocused := v\<rparr>"
| "set_focus K_isEndDateInputFocused v s = s\<lparr>isEndDateInputFocused := v\<rparr>"

fun set_hover :: "hover_key \<Rightarrow> hover_string \<Rightarrow> state \<Rightarrow> state" where
  "set_hover K_startDateHoverValueString v s = s\<lparr>startDateHoverValueString := v\<rparr>"
| "set_hover K_endDateHoverValueString v s = s\<lparr>endDateHoverValueString := v\<rparr>"

subsection \<open>Boolean functions and getters\<close>

definition isNull :: "moment option \<Rightarrow> bool" where
  "isNull v = (case v of None \<Rightarrow> True | Some m \<Rightarrow> nullInput m)"

definition dateIsInRange :: "props \<Rightarrow> moment option \<Rightarrow> bool" where
  "dateIsInRange P v =
     (case minDate P of
        None \<Rightarrow> True
      | Some lo \<Rightarrow>
          (case maxDate P of
             None \<Rightarrow> True
           | Some hi \<Rightarrow>
               (case v of None \<Rightarrow> False | Some m \<Rightarrow> isBetween_day_inclusive m lo hi)))"

definition isDateValidAndInRange :: "props \<Rightarrow> moment option \<Rightarrow> bool" where
  "isDateValidAndInRange P v =
     (case v of None \<Rightarrow> False | Some m \<Rightarrow> isValid m \<and> dateIsInRange P v)"

definition getDefaultDateRange :: "props \<Rightarrow> moment \<times> moment" where
  "getDefaultDateRange P =
     (case defaultValue P of
        Some r \<Rightarrow> fromDateRangeToMomentArray r
      | None \<Rightarrow> fromDateRangeToMomentArray (None, None))"

definition getCurrentDateRange :: "props \<Rightarrow> state \<Rightarrow> DateRange" where
  "getCurrentDateRange P s =
     (let startDate = (if isDateValidAndInRange P (startDateValue s)
                       then fromMomentToDate (startDateValue s) else None);
          endDate = (if isDateValidAndInRange P (endDateValue s)
                     then fromMomentToDate (endDateValue s) else None)
      in if js_number endDate < js_number startDate
         then toDateRange startDate None
         else toDateRange startDate endDate)"

definition getDateStringForDisplay :: "moment_lib \<Rightarrow> props \<Rightarrow> moment option \<Rightarrow> string" where
  "getDateStringForDisplay L P v =
     (case v of
        None \<Rightarrow> []
      | Some m \<Rightarrow>
          if nullInput m then []
          else if \<not> isValid m then invalidDateMessage P
          else if \<not> dateIsInRange P v then outOfRangeMessage P
          else moment_format L m (format P))"

text \<open>A string is truthy when it is not empty; \<open>null\<close> is falsy.\<close>

definition truthy :: "string option \<Rightarrow> bool" where
  "truthy x = (case x of None \<Rightarrow> False | Some txt \<Rightarrow> txt \<noteq> [])"

definition getStartDateInputPlaceholder ::
  "moment_lib \<Rightarrow> props \<Rightarrow> state \<Rightarrow> string option \<Rightarrow> string option \<Rightarrow> string" where
  "getStartDateInputPlaceholder L P s startDateString endDateString =
     (case (if isStartDateInputFocused s then minDate P else None) of
        Some lo \<Rightarrow> toFormattedDateString L lo (format P)
      | None \<Rightarrow>
          if allowUnboundedDateRange P \<and> (truthy startDateString \<or> truthy endDateString)
          then ''All before''
          else ''Start date'')"

definition getEndDateInputPlaceholder ::
  "moment_lib \<Rightarrow> props \<Rightarrow> state \<Rightarrow> string option \<Rightarrow> string option \<Rightarrow> string" where
  "getEndDateInputPlaceholder L P s startDateString endDateString =
     (case (if isEndDateInputFocused s then maxDate P else None) of
        Some hi \<Rightarrow> toFormattedDateString L hi (format P)
      | None \<Rightarrow>
          if allowUnboundedDateRange P \<and> (truthy startDateString \<or> truthy endDateString)
          then ''All after''
          else ''End date'')"

subsection \<open>The constructor\<close>

definition initialState :: "props \<Rightarrow> state" where
  "initialState P =
     (let (defaultStartDateValue, defaultEndDateValue) = getDefaultDateRange P;
          startV = (case value_prop P of
                      Some (Some d, e) \<Rightarrow> fromDateToMoment (Some d)
                    | Some (None, e) \<Rightarrow> defaultStartDateValue
                    | None \<Rightarrow> defaultStartDateValue);
          endV = (case value_prop P of
                    Some (d, Some e) \<Rightarrow> fromDateToMoment (Some e)
                  | Some (d, None) \<Rightarrow> defaultEndDateValue
                  | None \<Rightarrow> defaultEndDateValue)
      in \<lparr> isOpen = False,
           mostRecentlyFocusedField = None,
           isStartDateInputFocused = False,
           startDateHoverValueString = HUndefined,
           startDateValue = Some startV,
           startDateValueString = None,
           isEndDateInputFocused = False,
           endDateHoverValueString = HUndefined,
           endDateValue = Some endV,
           endDateValueString = None,
           boundaryToModify = None,
           wasLastFocusChangeDueToHover = False \<rparr>)"

subsection \<open>Callback handlers\<close>

text \<open>
  Each handler takes the state it reads and returns the state after its \<open>setState\<close>
  together with the effects it causes, in order. Focusing or blurring an input element is
  an effect: the focus and blur events the host then delivers are events of their own.
\<close>

definition handleHoverChange ::
  "moment_lib \<Rightarrow> props \<Rightarrow> state \<Rightarrow> DateRange option \<Rightarrow> state \<times> effect list" where
  "handleHoverChange L P s hoveredRange =
     (case hoveredRange of
        None \<Rightarrow> (s\<lparr>startDateHoverValueString := HNull, endDateHoverValueString := HNull\<rparr>, [])
      | Some r \<Rightarrow>
          (let (hoveredStart, hoveredEnd) = fromDateRangeToMomentArray r;
               hoveredStartString = getDateStringForDisplay L P (Some hoveredStart);
               hoveredEndString = getDateStringForDisplay L P (Some hoveredEnd);
               selectedStart = startDateValue s;
               selectedEnd = endDateValue s;
               isStartNull = isNull selectedStart;
               isEndNull = isNull selectedEnd;
               isExactlyOneBoundarySelected =
                 ((\<not> isStartNull \<and> isEndNull) \<or> (isStartNull \<and> \<not> isEndNull));
               effs =
                 (if isExactlyOneBoundarySelected then
                    (if isEndNull then
                       (if diff_days hoveredStart selectedStart = Some 0
                        then [RefFocus END] else [RefFocus START])
                     else
                       (if diff_days hoveredEnd selectedEnd = Some 0
                        then [RefFocus START] else [RefFocus END]))
                  else [])
           in (s\<lparr>endDateHoverValueString := HString hoveredEndString,
                  startDateHoverValueString := HString hoveredStartString,
                  wasLastFocusChangeDueToHover := True\<rparr>, effs)))"

definition handleDayMouseEnter :: "state \<Rightarrow> state \<times> effect list" where
  "handleDayMouseEnter s =
     (let isNeitherInputFocused = (\<not> isStartDateInputFocused s \<and> \<not> isEndDateInputFocused s)
      in if isNeitherInputFocused \<and> mostRecentlyFocusedField s = Some START
         then (s\<lparr>isStartDateInputFocused := True\<rparr>, [])
         else if isNeitherInputFocused \<and> mostRecentlyFocusedField s = Some END
         then (s\<lparr>isEndDateInputFocused := True\<rparr>, [])
         else (s, []))"

definition handleIconClick :: "state \<Rightarrow> state \<times> effect list" where
  "handleIconClick s =
     (if isOpen s then (s, [RefBlur START, RefBlur END])
      else (s\<lparr>isOpen := True\<rparr>, [StopPropagation, RefFocus START, RefBlur END]))"

definition handleGenericInputFocus ::
  "moment_lib \<Rightarrow> props \<Rightarrow> state \<Rightarrow> moment option \<Rightarrow> value_string_key \<Rightarrow> focus_key
     \<Rightarrow> DateRangeBoundary \<Rightarrow> state \<times> effect list" where
  "handleGenericInputFocus L P s val valueStringKey focusStateKey boundary =
     (let effs = (if selectAllOnFocus P then [SelectAll] else []);
          valueString = (case val of
                           None \<Rightarrow> []
                         | Some m \<Rightarrow> if isNull val then [] else moment_format L m (format P));
          sanitizedBoundaryToModify =
            (if wasLastFocusChangeDueToHover s then boundaryToModify s else Some boundary);
          s1 = set_value_string valueStringKey (Some valueString) (set_focus focusStateKey True s)
      in if openOnFocus P
         then (s1\<lparr>boundaryToModify := sanitizedBoundaryToModify,
                  isOpen := True,
                  mostRecentlyFocusedField := Some boundary,
                  wasLastFocusChangeDueToHover := False\<rparr>, effs)
         else (s1\<lparr>boundaryToModify := sanitizedBoundaryToModify,
                  mostRecentlyFocusedField := Some boundary,
                  wasLastFocusChangeDueToHover := False\<rparr>, effs))"

definition handleStartDateInputFocus :: "moment_lib \<Rightarrow> props \<Rightarrow> state \<Rightarrow> state \<times> effect list" where
  "handleStartDateInputFocus L P s =
     handleGenericInputFocus L P s (startDateValue s)
       K_startDateValueString K_isStartDateInputFocused START"

definition handleEndDateInputFocus :: "moment_lib \<Rightarrow> props \<Rightarrow> state \<Rightarrow> state \<times> effect list" where
  "handleEndDateInputFocus L P s =
     handleGenericInputFocus L P s (endDateValue s)
       K_endDateValueString K_isEndDateInputFocused END"

text \<open>The three branches of the blur handler.\<close>

datatype blur_path = EmptyInput | ChangedToInvalid | Unfocus

definition didInputChangeToInvalidState ::
  "moment_lib \<Rightarrow> props \<Rightarrow> state \<Rightarrow> string option \<Rightarrow> bool" where
  "didInputChangeToInvalidState L P s valueString =
     (let val = moment_of L valueString (format P);
          isValueInvalid = (\<not> isValid val);
          isValueOutOfRange = (\<not> dateIsInRange P (Some val));
          isValueStringOutOfSync =
            (valueString \<noteq> Some (getDateStringForDisplay L P (startDateValue s)));
          isInputEmpty = (case valueString of None \<Rightarrow> True | Some txt \<Rightarrow> length txt = 0)
      in \<not> isInputEmpty \<and> isValueStringOutOfSync \<and> (isValueInvalid \<or> isValueOutOfRange))"

definition blurPath :: "moment_lib \<Rightarrow> props \<Rightarrow> state \<Rightarrow> string option \<Rightarrow> blur_path" where
  "blurPath L P s valueString =
     (let isInputEmpty = (case valueString of None \<Rightarrow> True | Some txt \<Rightarrow> length txt = 0)
      in if isInputEmpty then EmptyInput
         else if didInputChangeToInvalidState L P s valueString then ChangedToInvalid
         else Unfocus)"

definition handleGenericInputBlur ::
  "moment_lib \<Rightarrow> props \<Rightarrow> state \<Rightarrow> string option \<Rightarrow> value_key \<Rightarrow> value_string_key
     \<Rightarrow> focus_key \<Rightarrow> state \<times> effect list" where
  "handleGenericInputBlur L P s valueString valueKey valueStringKey focusStatusKey =
     (let val = moment_of L valueString (format P)
      in case blurPath L P s valueString of
           EmptyInput \<Rightarrow>
             (set_value_string valueStringKey None
                (set_value valueKey (Some NullInput) (set_focus focusStatusKey False s)), [])
         | ChangedToInvalid \<Rightarrow>
             (if value_prop P = None
              then (set_value_string valueStringKey None
                      (set_value valueKey (Some val) (set_focus focusStatusKey False s)), [])
              else (set_focus focusStatusKey False s, []))
         | Unfocus \<Rightarrow> (set_focus focusStatusKey False s, []))"

definition handleStartDateInputBlur :: "moment_lib \<Rightarrow> props \<Rightarrow> state \<Rightarrow> state \<times> effect list" where
  "handleStartDateInputBlur L P s =
     handleGenericInputBlur L P s (startDateValueString s)
       K_startDateValue K_startDateValueString K_isStartDateInputFocused"

definition handleEndDateInputBlur :: "moment_lib \<Rightarrow> props \<Rightarrow> state \<Rightarrow> state \<times> effect list" where
  "handleEndDateInputBlur L P s =
     handleGenericInputBlur L P s (endDateValueString s)
       K_endDateValue K_endDateValueString K_isEndDateInputFocused"

definition handleGenericInputChange ::
  "moment_lib \<Rightarrow> props \<Rightarrow> state \<Rightarrow> string \<Rightarrow> value_key \<Rightarrow> value_string_key \<Rightarrow> hover_key
     \<Rightarrow> state \<times> effect list" where
  "handleGenericInputChange L P s valueString valueKey valueStringKey hoverValueStringKey =
     (let val = moment_of L (Some valueString) (format P)
      in if length valueString = 0
         then (set_hover hoverValueStringKey HNull
                 (set_value_string valueStringKey (Some [])
                    (set_value valueKey None s)), [])
         else if isValid val \<and> dateIsInRange P (Some val)
         then (if value_prop P = None
               then (set_value_string valueStringKey (Some valueString)
                       (set_value valueKey (Some val) s), [])
               else (set_value_string valueStringKey (Some valueString) s, []))
         else (set_value_string valueStringKey (Some valueString)
                 (set_value valueKey (Some val) s), []))"

definition handleStartDateInputChange ::
  "moment_lib \<Rightarrow> props \<Rightarrow> state \<Rightarrow> string \<Rightarrow> state \<times> effect list" where
  "handleStartDateInputChange L P s valueString =
     handleGenericInputChange L P s valueString
       K_startDateValue K_startDateValueString K_startDateHoverValueString"

definition handleEndDateInputChange ::
  "moment_lib \<Rightarrow> props \<Rightarrow> state \<Rightarrow> string \<Rightarrow> state \<times> effect list" where
  "handleEndDateInputChange L P s valueString =
     handleGenericInputChange L P s valueString
       K_endDateValue K_endDateValueString K_endDateHoverValueString"

text \<open>Modelled from the spec: \<open>Keys.TAB\<close> of \<open>@blueprintjs/core\<close> is not among the sources;
  it is the key code of the Tab key.\<close>

definition Keys_TAB :: nat where
  "Keys_TAB = 9"

definition handleGenericInputKeyDown :: "state \<Rightarrow> nat \<Rightarrow> bool \<Rightarrow> state \<times> effect list" where
  "handleGenericInputKeyDown s keyCode shiftKey =
     (let isTabPressed = (keyCode = Keys_TAB);
          isShiftPressed = shiftKey;
          willMoveFocusFromStartToEndField = (isStartDateInputFocused s \<and> isTabPressed);
          willMoveFocusFromEndToStartField =
            (isEndDateInputFocused s \<and> isTabPressed \<and> isShiftPressed);
          willChangeFocusedField =
            (willMoveFocusFromStartToEndField \<or> willMoveFocusFromEndToStartField)
      in if willChangeFocusedField
         then (s\<lparr>wasLastFocusChangeDueToHover := False\<rparr>, [])
         else (s, []))"

definition handleGenericInputClick :: "state \<Rightarrow> state \<times> effect list" where
  "handleGenericInputClick s = (s, [StopPropagation])"

definition handleClosePopover :: "state \<Rightarrow> state \<times> effect list" where
  "handleClosePopover s = (s\<lparr>isOpen := False\<rparr>, [])"

text \<open>
  In \<open>handleDateRangeChange\<close> the two hover strings are local variables that stay
  undefined unless a branch assigns \<open>null\<close>, and \<open>setState\<close> writes them as they are.
\<close>

definition handleDateRangeChange ::
  "moment_lib \<Rightarrow> props \<Rightarrow> state \<Rightarrow> DateRange \<Rightarrow> state \<times> effect list" where
  "handleDateRangeChange L P s dateRange =
     (let (startDate, endDate) = dateRange;
          startV = fromDateToMoment startDate;
          endV = fromDateToMoment endDate;
          startVString = (if startDate \<noteq> None then moment_format L startV (format P) else []);
          endVString = (if endDate \<noteq> None then moment_format L endV (format P) else []);
          (startFocused, endFocused, open, startHover, endHover) =
            (if startDate = None then (True, False, True, HNull, HUndefined)
             else if endDate = None then (False, True, True, HUndefined, HNull)
             else if closeOnSelection P then (False, False, False, HUndefined, HUndefined)
             else if mostRecentlyFocusedField s = Some START
             then (True, False, True, HUndefined, HUndefined)
             else (False, True, True, HUndefined, HUndefined))
      in (s\<lparr>wasLastFocusChangeDueToHover := False,
             endDateHoverValueString := endHover,
             endDateValue := Some endV,
             endDateValueString := Some endVString,
             isEndDateInputFocused := endFocused,
             isOpen := open,
             isStartDateInputFocused := startFocused,
             startDateHoverValueString := startHover,
             startDateValue := Some startV,
             startDateValueString := Some startVString\<rparr>, []))"

subsection \<open>What render computes\<close>

text \<open>The date values \<open>render\<close> works with: the text being typed, parsed, while the field
  is focused, and the value of the state otherwise.\<close>

definition renderStartDateValue :: "moment_lib \<Rightarrow> props \<Rightarrow> state \<Rightarrow> moment option" where
  "renderStartDateValue L P s =
     (if isStartDateInputFocused s
      then Some (moment_of L (startDateValueString s) (format P))
      else startDateValue s)"

definition renderEndDateValue :: "moment_lib \<Rightarrow> props \<Rightarrow> state \<Rightarrow> moment option" where
  "renderEndDateValue L P s =
     (if isEndDateInputFocused s
      then Some (moment_of L (endDateValueString s) (format P))
      else endDateValue s)"

text \<open>The date strings. A method call on a value that is \<open>null\<close> throws.\<close>

definition renderStartDateString :: "moment_lib \<Rightarrow> props \<Rightarrow> state \<Rightarrow> string option" where
  "renderStartDateString L P s =
     (case startDateHoverValueString s of
        HString h \<Rightarrow> Some h
      | HNull \<Rightarrow>
          (if isStartDateInputFocused s then startDateValueString s
           else Some (getDateStringForDisplay L P (startDateValue s)))
      | HUndefined \<Rightarrow>
          (if isStartDateInputFocused s then startDateValueString s
           else Some (getDateStringForDisplay L P (startDateValue s))))"

definition renderEndDateString ::
  "moment_lib \<Rightarrow> props \<Rightarrow> state \<Rightarrow> js_error + string option" where
  "renderEndDateString L P s =
     (case endDateHoverValueString s of
        HString h \<Rightarrow> Inr (Some h)
      | other \<Rightarrow>
          (if isEndDateInputFocused s then Inr (endDateValueString s)
           else (case renderEndDateValue L P s of
                   None \<Rightarrow> Inl TypeError
                 | Some e \<Rightarrow>
                     if isBefore e (renderStartDateValue L P s)
                     then Inr (Some (invalidEndDateMessage P))
                     else Inr (Some (getDateStringForDisplay L P (endDateValue s))))))"

text \<open>\<open>a === b\<close> between a date string and a hover string.\<close>

fun strict_eq_hover :: "string option \<Rightarrow> hover_string \<Rightarrow> bool" where
  "strict_eq_hover (Some a) (HString b) = (a = b)"
| "strict_eq_hover None HNull = True"
| "strict_eq_hover a b = False"

record view =
  startDateString :: "string option"
  endDateString :: "string option"
  startDatePlaceholder :: string
  endDatePlaceholder :: string
  isStartDateInputInErrorState :: bool
  isEndDateInputInErrorState :: bool
  pickerBoundaryToModify :: "DateRangeBoundary option"
  pickerValue :: DateRange
  popoverIsOpen :: bool
  startInputValue :: string
  endInputValue :: string

definition render :: "moment_lib \<Rightarrow> props \<Rightarrow> state \<Rightarrow> js_error + view" where
  "render L P s =
     (let startV = renderStartDateValue L P s;
          endV = renderEndDateValue L P s;
          startString = renderStartDateString L P s
      in case renderEndDateString L P s of
           Inl err \<Rightarrow> Inl err
         | Inr endString \<Rightarrow>
             (case startV of
                None \<Rightarrow> Inl TypeError
              | Some sv \<Rightarrow>
                  (case endV of
                     None \<Rightarrow> Inl TypeError
                   | Some ev \<Rightarrow>
                       (let startError =
                              (\<not> (isDateValidAndInRange P startV
                                   \<or> isNull startV
                                   \<or> startString = Some []
                                   \<or> strict_eq_hover startString (startDateHoverValueString s)));
                            isEndDaySameAsStartDay = areSameDay (toDate sv) (toDate ev);
                            endError =
                              ((\<not> (isDateValidAndInRange P endV
                                    \<or> isNull endV
                                    \<or> endString = Some []
                                    \<or> strict_eq_hover endString (endDateHoverValueString s)))
                               \<or> (isBefore ev startV \<and> \<not> isEndDaySameAsStartDay))
                        in Inr \<lparr> startDateString = startString,
                                 endDateString = endString,
                                 startDatePlaceholder =
                                   getStartDateInputPlaceholder L P s startString endString,
                                 endDatePlaceholder =
                                   getEndDateInputPlaceholder L P s startString endString,
                                 isStartDateInputInErrorState = startError,
                                 isEndDateInputInErrorState = endError,
                                 pickerBoundaryToModify = boundaryToModify s,
                                 pickerValue = getCurrentDateRange P s,
                                 popoverIsOpen = isOpen s,
                                 startInputValue =
                                   (case startString of None \<Rightarrow> [] | Some txt \<Rightarrow> txt),
                                 endInputValue =
                                   (case endString of None \<Rightarrow> [] | Some txt \<Rightarrow> txt) \<rparr>))))"

subsection \<open>Events\<close>

text \<open>The events the renderer and the calendar deliver, and the handler each one runs.\<close>

datatype event =
    EvFocus DateRangeBoundary
  | EvBlur DateRangeBoundary
  | EvChange DateRangeBoundary string
  | EvKeyDown nat bool
  | EvClick
  | EvHoverChange "DateRange option"
  | EvDayMouseEnter
  | EvIconClick
  | EvClosePopover
  | EvDateRangeChange DateRange

fun dispatch :: "moment_lib \<Rightarrow> props \<Rightarrow> state \<Rightarrow> event \<Rightarrow> state \<times> effect list" where
  "dispatch L P s (EvFocus START) = handleStartDateInputFocus L P s"
| "dispatch L P s (EvFocus END) = handleEndDateInputFocus L P s"
| "dispatch L P s (EvBlur START) = handleStartDateInputBlur L P s"
| "dispatch L P s (EvBlur END) = handleEndDateInputBlur L P s"
| "dispatch L P s (EvChange START txt) = handleStartDateInputChange L P s txt"
| "dispatch L P s (EvChange END txt) = handleEndDateInputChange L P s txt"
| "dispatch L P s (EvKeyDown keyCode shiftKey) = handleGenericInputKeyDown s keyCode shiftKey"
| "dispatch L P s EvClick = handleGenericInputClick s"
| "dispatch L P s (EvHoverChange r) = handleHoverChange L P s r"
| "dispatch L P s EvDayMouseEnter = handleDayMouseEnter s"
| "dispatch L P s EvIconClick = handleIconClick s"
| "dispatch L P s EvClosePopover = handleClosePopover s"
| "dispatch L P s (EvDateRangeChange r) = handleDateRangeChange L P s r"

text \<open>Running the handlers of a sequence of events in order: the state reached and every
  effect caused on the way. Nothing but the handlers runs here; the update of the
  component after an event, and the events its calls provoke, are added below.\<close>

fun run :: "moment_lib \<Rightarrow> props \<Rightarrow> state \<Rightarrow> event list \<Rightarrow> state" where
  "run L P s [] = s"
| "run L P s (ev # evs) = run L P (fst (dispatch L P s ev)) evs"

fun effects :: "moment_lib \<Rightarrow> props \<Rightarrow> state \<Rightarrow> event list \<Rightarrow> effect list" where
  "effects L P s [] = []"
| "effects L P s (ev # evs) =
     snd (dispatch L P s ev) @ effects L P (fst (dispatch L P s ev)) evs"

subsection \<open>The component's update and the document\<close>

text \<open>
  After the state updates of an event have been applied, the component renders and
  \<open>componentDidUpdate\<close> runs: it compares the focus flags with the element of the
  document that has the focus and calls \<open>focus()\<close> on the input whose flag is set. The
  document is modelled by that one element: one of the two inputs, or none of them.
\<close>

record host =
  component :: state
  activeElement :: "DateRangeBoundary option"

text \<open>\<open>componentDidUpdate\<close>, with \<open>document.activeElement\<close> as an argument; the
  calls it makes are returned as effects.\<close>

definition componentDidUpdate :: "state \<Rightarrow> DateRangeBoundary option \<Rightarrow> effect list" where
  "componentDidUpdate s active =
     (if isStartDateInputFocused s \<and> active \<noteq> Some START then [RefFocus START]
      else if isEndDateInputFocused s \<and> active \<noteq> Some END then [RefFocus END]
      else [])"

text \<open>
  \<open>element.focus()\<close> on one of the two inputs. Nothing happens when the input is disabled
  or has the focus already. Otherwise the document delivers a blur event to the input
  that had the focus, if one had, moves the focus, and delivers a focus event to the new
  one; the result says whether an event was delivered. The focus and blur handlers cause
  no focus change themselves.
\<close>

definition element_focus ::
  "moment_lib \<Rightarrow> props \<Rightarrow> DateRangeBoundary \<Rightarrow> host \<Rightarrow> host \<times> bool" where
  "element_focus L P b H =
     (if disabled P \<or> activeElement H = Some b then (H, False)
      else
        (let s1 = (case activeElement H of
                     None \<Rightarrow> component H
                   | Some old \<Rightarrow> fst (dispatch L P (component H) (EvBlur old)));
             s2 = fst (dispatch L P s1 (EvFocus b))
         in (\<lparr> component = s2, activeElement = Some b \<rparr>, True)))"

text \<open>\<open>element.blur()\<close>: the input loses the focus, with a blur event, if it had it.\<close>

definition element_blur ::
  "moment_lib \<Rightarrow> props \<Rightarrow> DateRangeBoundary \<Rightarrow> host \<Rightarrow> host \<times> bool" where
  "element_blur L P b H =
     (if activeElement H = Some b
      then (\<lparr> component = fst (dispatch L P (component H) (EvBlur b)),
              activeElement = None \<rparr>, True)
      else (H, False))"

text \<open>Performing the effects of a handler in order; only the calls on the two inputs
  concern the document.\<close>

fun perform :: "moment_lib \<Rightarrow> props \<Rightarrow> effect list \<Rightarrow> host \<Rightarrow> host \<times> bool" where
  "perform L P [] H = (H, False)"
| "perform L P (RefFocus b # es) H =
     (let (H1, p1) = element_focus L P b H; (H2, p2) = perform L P es H1 in (H2, p1 \<or> p2))"
| "perform L P (RefBlur b # es) H =
     (let (H1, p1) = element_blur L P b H; (H2, p2) = perform L P es H1 in (H2, p1 \<or> p2))"
| "perform L P (e # es) H = perform L P es H"

text \<open>
  The updates of the component: \<open>componentDidUpdate\<close> runs, and when its call delivers
  events, their handlers update the state and it runs again. The first argument bounds
  the number of rounds; \<open>None\<close> means the bound was reached.
\<close>

fun settle :: "nat \<Rightarrow> moment_lib \<Rightarrow> props \<Rightarrow> host \<Rightarrow> host option" where
  "settle 0 L P H = None"
| "settle (Suc n) L P H =
     (let (H1, provoked) =
            perform L P (componentDidUpdate (component H) (activeElement H)) H
      in if provoked then settle n L P H1 else Some H1)"

text \<open>Whether the handler of an event calls \<open>setState\<close>; without a state update the
  component does not update.\<close>

fun calls_setState :: "state \<Rightarrow> event \<Rightarrow> bool" where
  "calls_setState s EvClick = False"
| "calls_setState s EvIconClick = (\<not> isOpen s)"
| "calls_setState s EvDayMouseEnter =
     (\<not> isStartDateInputFocused s \<and> \<not> isEndDateInputFocused s \<and>
      (mostRecentlyFocusedField s = Some START \<or> mostRecentlyFocusedField s = Some END))"
| "calls_setState s (EvKeyDown keyCode shiftKey) =
     ((isStartDateInputFocused s \<and> keyCode = Keys_TAB) \<or>
      (isEndDateInputFocused s \<and> keyCode = Keys_TAB \<and> shiftKey))"
| "calls_setState s ev = True"

text \<open>handleHoverChange calls focus() before its setState; every other handler that
  touches an input element does so after its setState.\<close>

fun effects_before_setState :: "event \<Rightarrow> bool" where
  "effects_before_setState (EvHoverChange r) = True"
| "effects_before_setState ev = False"

text \<open>
  One event handled: the handler runs, and the focus and blur events that its own calls
  on the inputs provoke are handled with it, before the component updates. The result
  says whether any state update was made.
\<close>

definition handled :: "moment_lib \<Rightarrow> props \<Rightarrow> host \<Rightarrow> event \<Rightarrow> host \<times> bool" where
  "handled L P H ev =
     (let s = component H;
          effs = snd (dispatch L P s ev)
      in if effects_before_setState ev
         then (let m = perform L P effs H
               in ((fst m)\<lparr>component := fst (dispatch L P (component (fst m)) ev)\<rparr>,
                   calls_setState s ev \<or> snd m))
         else (let m = perform L P effs (H\<lparr>component := fst (dispatch L P s ev)\<rparr>)
               in (fst m, calls_setState s ev \<or> snd m)))"

text \<open>One event processed: handled, and then the component updates until it is settled.\<close>

definition process :: "nat \<Rightarrow> moment_lib \<Rightarrow> props \<Rightarrow> host \<Rightarrow> event \<Rightarrow> host option" where
  "process n L P H ev =
     (let m = handled L P H ev
      in if snd m then settle n L P (fst m) else Some (fst m))"

definition initial_host :: "props \<Rightarrow> host" where
  "initial_host P = \<lparr> component = initialState P, activeElement = None \<rparr>"

text \<open>
  Processing a sequence of events. Each event comes with the element that has the focus
  when its handler runs: the host may have moved the focus in any way before.
\<close>

fun host_run ::
  "nat \<Rightarrow> moment_lib \<Rightarrow> props \<Rightarrow> host \<Rightarrow> (DateRangeBoundary option \<times> event) list \<Rightarrow> host option" where
  "host_run n L P H [] = Some H"
| "host_run n L P H ((a, ev) # rest) =
     (case process n L P (H\<lparr>activeElement := a\<rparr>) ev of
        None \<Rightarrow> None
      | Some H' \<Rightarrow> host_run n L P H' rest)"

section \<open>An instance of the library for the default format\<close>

text \<open>
  For runs on concrete text the library is instantiated for the format \<open>YYYY-MM-DD\<close>:
  a text parses when it is four digits, a dash, two digits, a dash and two digits that
  name a day of the proleptic Gregorian calendar, to that day's midnight; every other
  text is invalid. Printing gives the same shape back (for years 0 to 9999).
\<close>

definition days_from_civil :: "int \<Rightarrow> int \<Rightarrow> int \<Rightarrow> int" where
  "days_from_civil y m d =
     (let y1 = (if m \<le> 2 then y - 1 else y);
          era = y1 div 400;
          yoe = y1 - era * 400;
          mp = (m + 9) mod 12;
          doy = (153 * mp + 2) div 5 + d - 1;
          doe = yoe * 365 + yoe div 4 - yoe div 100 + doy
      in era * 146097 + doe - 719468)"

definition civil_from_days :: "int \<Rightarrow> int \<times> int \<times> int" where
  "civil_from_days z =
     (let z1 = z + 719468;
          era = z1 div 146097;
          doe = z1 - era * 146097;
          yoe = (doe - doe div 1460 + doe div 36524 - doe div 146096) div 365;
          y = yoe + era * 400;
          doy = doe - (365 * yoe + yoe div 4 - yoe div 100);
          mp = (5 * doy + 2) div 153;
          d = doy - (153 * mp + 2) div 5 + 1;
          m = (if mp < 10 then mp + 3 else mp - 9)
      in (if m \<le> 2 then y + 1 else y, m, d))"

definition is_leap :: "int \<Rightarrow> bool" where
  "is_leap y = (y mod 4 = 0 \<and> (y mod 100 \<noteq> 0 \<or> y mod 400 = 0))"

definition days_in_month :: "int \<Rightarrow> int \<Rightarrow> int" where
  "days_in_month y m =
     (if m = 2 then (if is_leap y then 29 else 28)
      else if m = 4 \<or> m = 6 \<or> m = 9 \<or> m = 11 then 30
      else 31)"

definition digit_val :: "char \<Rightarrow> int option" where
  "digit_val c =
     map_of [(CHR ''0'', 0), (CHR ''1'', 1), (CHR ''2'', 2), (CHR ''3'', 3), (CHR ''4'', 4),
             (CHR ''5'', 5), (CHR ''6'', 6), (CHR ''7'', 7), (CHR ''8'', 8), (CHR ''9'', 9)] c"

fun digits_val :: "int \<Rightarrow> string \<Rightarrow> int option" where
  "digits_val acc [] = Some acc"
| "digits_val acc (c # cs) =
     (case digit_val c of None \<Rightarrow> None | Some v \<Rightarrow> digits_val (acc * 10 + v) cs)"

definition parse_ymd :: "string \<Rightarrow> Date option" where
  "parse_ymd txt =
     (if length txt = 10 \<and> txt ! 4 = CHR ''-'' \<and> txt ! 7 = CHR ''-'' then
        (case (digits_val 0 (take 4 txt), digits_val 0 (take 2 (drop 5 txt)),
               digits_val 0 (drop 8 txt)) of
           (Some y, Some m, Some d) \<Rightarrow>
             (if 1 \<le> m \<and> m \<le> 12 \<and> 1 \<le> d \<and> d \<le> days_in_month y m
              then Some (days_from_civil y m d * msPerDay) else None)
         | other \<Rightarrow> None)
      else None)"

definition digit_char :: "int \<Rightarrow> char" where
  "digit_char v =
     (if v = 0 then CHR ''0'' else if v = 1 then CHR ''1'' else if v = 2 then CHR ''2''
      else if v = 3 then CHR ''3'' else if v = 4 then CHR ''4'' else if v = 5 then CHR ''5''
      else if v = 6 then CHR ''6'' else if v = 7 then CHR ''7'' else if v = 8 then CHR ''8''
      else CHR ''9'')"

definition format_ymd :: "Date \<Rightarrow> string" where
  "format_ymd t =
     (let (y, m, d) = civil_from_days (dayOf t)
      in [digit_char (y div 1000 mod 10), digit_char (y div 100 mod 10),
          digit_char (y div 10 mod 10), digit_char (y mod 10), CHR ''-'',
          digit_char (m div 10 mod 10), digit_char (m mod 10), CHR ''-'',
          digit_char (d div 10 mod 10), digit_char (d mod 10)])"

definition ymd_lib :: moment_lib where
  "ymd_lib = \<lparr> lib_parse = (\<lambda>txt fmt. parse_ymd txt), lib_format = (\<lambda>t fmt. format_ymd t) \<rparr>"

text \<open>The default props; the two default bounds come from \<open>getDefaultMinDate\<close> and
  \<open>getDefaultMaxDate\<close> of the date picker core, which depend on the day the component
  is loaded, and are parameters here. The scenario props bound the year 2020.\<close>

definition defaultProps :: "Date option \<Rightarrow> Date option \<Rightarrow> props" where
  "defaultProps lo hi =
     \<lparr> allowSingleDayRange = False,
       allowUnboundedDateRange = False,
       closeOnSelection = False,
       disabled = False,
       defaultValue = None,
       format = ''YYYY-MM-DD'',
       invalidDateMessage = ''Invalid date'',
       invalidEndDateMessage = ''Invalid end date'',
       maxDate = hi,
       minDate = lo,
       openOnFocus = True,
       outOfRangeMessage = ''Out of range'',
       selectAllOnFocus = True,
       showIcon = True,
       value_prop = None \<rparr>"

definition date_2020_01_01 :: Date where "date_2020_01_01 = 1577836800000"
definition date_2020_12_31 :: Date where "date_2020_12_31 = 1609372800000"
definition date_2020_02_05 :: Date where "date_2020_02_05 = 1580860800000"
definition date_2020_02_10 :: Date where "date_2020_02_10 = 1581292800000"

definition props2020 :: props where
  "props2020 = defaultProps (Some date_2020_01_01) (Some date_2020_12_31)"

definition out_of_order_state :: state where
  "out_of_order_state =
     (initialState props2020)\<lparr>startDateValue := Some (Valid date_2020_02_10),
                               endDateValue := Some (Valid date_2020_02_05)\<rparr>"

definition date_2020_03_01 :: Date where "date_2020_03_01 = 1583020800000"

text \<open>Noon of 29 February 2020: twelve hours before the midnight that starts 1 March.\<close>

definition date_2020_02_29_noon :: Date where "date_2020_02_29_noon = 1582977600000"

text \<open>Typing a text is one change event for each keystroke, with the text so far.\<close>

definition typing :: "DateRangeBoundary \<Rightarrow> string \<Rightarrow> event list" where
  "typing b txt = map (\<lambda>n. EvChange b (take n txt)) [1..<Suc (length txt)]"

text \<open>Focusing a field, typing a text into it and leaving it.\<close>

definition enter_text :: "DateRangeBoundary \<Rightarrow> string \<Rightarrow> event list" where
  "enter_text b txt = EvFocus b # typing b txt @ [EvBlur b]"

text \<open>The calls of the output callbacks among some effects.\<close>

fun is_callback :: "effect \<Rightarrow> bool" where
  "is_callback (CallOnChange r) = True"
| "is_callback (CallOnError d) = True"
| "is_callback (RefFocus b) = False"
| "is_callback (RefBlur b) = False"
| "is_callback SelectAll = False"
| "is_callback StopPropagation = False"

text \<open>At most one of the two focus flags is set.\<close>

definition focus_exclusive :: "state \<Rightarrow> bool" where
  "focus_exclusive s = (\<not> (isStartDateInputFocused s \<and> isEndDateInputFocused s))"

text \<open>The text a field last displayed for the value of the state, by boundary.\<close>

fun displayedValueString :: "moment_lib \<Rightarrow> props \<Rightarrow> state \<Rightarrow> DateRangeBoundary \<Rightarrow> string" where
  "displayedValueString L P s START = getDateStringForDisplay L P (startDateValue s)"
| "displayedValueString L P s END = getDateStringForDisplay L P (endDateValue s)"

text \<open>The states of the runs used below.\<close>

definition scenario_start_entered :: state where
  "scenario_start_entered =
     run ymd_lib props2020 (initialState props2020) (enter_text START ''2020-02-10'')"

definition scenario_end_entered :: state where
  "scenario_end_entered =
     run ymd_lib props2020 scenario_start_entered (enter_text END ''2020-02-05'')"

definition start_focused_state :: state where
  "start_focused_state = run ymd_lib props2020 (initialState props2020) [EvFocus START]"

definition closing_props :: props where
  "closing_props = props2020\<lparr>closeOnSelection := True\<rparr>"

definition hover_start_state :: state where
  "hover_start_state =
     run ymd_lib props2020 (initialState props2020) (enter_text START ''2020-03-01'')"

definition abc_typed_state :: state where
  "abc_typed_state =
     run ymd_lib props2020 (initialState props2020) (EvFocus START # typing START ''abc'')"

definition sticky_invalid_end_state :: state where
  "sticky_invalid_end_state =
     run ymd_lib props2020 (initialState props2020) (enter_text END ''abc'' @ [EvFocus END])"

text \<open>The host after a focus event for the end field and then one for the start field,
  delivered with no blur event while the end input keeps the focus.\<close>

definition refocused_host :: host where
  "refocused_host =
     \<lparr> component =
         \<lparr> isOpen = True, mostRecentlyFocusedField = Some START,
           isStartDateInputFocused = True, startDateHoverValueString = HUndefined,
           startDateValue = Some NullInput, startDateValueString = Some [],
           isEndDateInputFocused = False, endDateHoverValueString = HUndefined,
           endDateValue = Some NullInput, endDateValueString = None,
           boundaryToModify = Some START, wasLastFocusChangeDueToHover = False \<rparr>,
       activeElement = Some START \<rparr>"

lemmas scenario_defs =
  props2020_def defaultProps_def dayOf_def msPerDay_def date_2020_01_01_def
  date_2020_12_31_def date_2020_02_10_def date_2020_02_05_def date_2020_03_01_def
  date_2020_02_29_noon_def

section \<open>The bounds check\<close>

lemma dayOf_mono: "a \<le> b \<Longrightarrow> dayOf a \<le> dayOf b"
  unfolding dayOf_def msPerDay_def by (rule zdiv_mono1) simp_all

text \<open>
  C6 (as amended). \<open>dateIsInRange\<close> is inclusive at both ends, by calendar day, when both
  bounds are supplied: a date is in range exactly when its day lies between the days of
  \<open>minDate\<close> and \<open>maxDate\<close>, and both bounds themselves are in range. When either bound
  is omitted the check accepts every value, whatever the other bound is.
\<close>

theorem dateIsInRange_bounds:
  "(minDate P = Some lo \<and> maxDate P = Some hi \<longrightarrow>
      dateIsInRange P (Some (Valid t)) = (dayOf lo \<le> dayOf t \<and> dayOf t \<le> dayOf hi)) \<and>
   (minDate P = Some lo \<and> maxDate P = Some hi \<and> lo \<le> hi \<longrightarrow>
      dateIsInRange P (Some (Valid lo)) \<and> dateIsInRange P (Some (Valid hi))) \<and>
   (minDate P = None \<or> maxDate P = None \<longrightarrow> dateIsInRange P v)"
  by (auto simp: dateIsInRange_def isBetween_day_inclusive_def dayOf_mono split: option.splits)

theorem dateIsInRange_bounds_witness:
  "dateIsInRange props2020 (Some (Valid date_2020_02_10)) \<and>
   dateIsInRange props2020 (Some (Valid date_2020_01_01)) \<and>
   dateIsInRange props2020 (Some (Valid date_2020_12_31)) \<and>
   \<not> dateIsInRange props2020 (Some (Valid (date_2020_12_31 + msPerDay))) \<and>
   dateIsInRange (defaultProps None (Some date_2020_12_31))
     (Some (Valid (date_2020_12_31 + msPerDay)))"
  using dateIsInRange_bounds [of props2020 date_2020_01_01 date_2020_12_31 date_2020_02_10]
    dateIsInRange_bounds [of props2020 date_2020_01_01 date_2020_12_31
       "date_2020_12_31 + msPerDay"]
    dateIsInRange_bounds [of "defaultProps None (Some date_2020_12_31)" 0 0 0
       "Some (Valid (date_2020_12_31 + msPerDay))"]
  by (simp add: scenario_defs)

text \<open>
  With \<open>minDate\<close> omitted and \<open>maxDate\<close> the last day of 2020, the first day of 2021 is
  in range although it lies after \<open>maxDate\<close>; with \<open>maxDate\<close> omitted and \<open>minDate\<close> the
  first day of 2020, the last day of 2019 is in range although it lies before \<open>minDate\<close>.
\<close>

theorem dateIsInRange_omitted_bound_counterexample:
  "dateIsInRange (defaultProps None (Some date_2020_12_31))
     (Some (Valid (date_2020_12_31 + msPerDay))) \<and>
   \<not> (dayOf (date_2020_12_31 + msPerDay) \<le> dayOf date_2020_12_31) \<and>
   dateIsInRange (defaultProps (Some date_2020_01_01) None)
     (Some (Valid (date_2020_01_01 - msPerDay))) \<and>
   \<not> (dayOf date_2020_01_01 \<le> dayOf (date_2020_01_01 - msPerDay))"
  by (simp add: dateIsInRange_def scenario_defs)

section \<open>The range handed to the calendar\<close>

text \<open>
  C10. When both values of the state are valid and in range and the end lies strictly
  before the start, \<open>getCurrentDateRange\<close> is the start with no end: the end is neither
  passed through nor swapped.
\<close>

theorem getCurrentDateRange_end_before_start:
  assumes "startDateValue s = Some (Valid a)" and "endDateValue s = Some (Valid b)"
    and "isDateValidAndInRange P (startDateValue s)"
    and "isDateValidAndInRange P (endDateValue s)"
    and "b < a"
  shows "getCurrentDateRange P s = (Some a, None)"
  using assms
  by (simp add: getCurrentDateRange_def fromMomentToDate_def toDateRange_def js_number_def)

theorem getCurrentDateRange_end_before_start_witness:
  "getCurrentDateRange props2020 out_of_order_state = (Some date_2020_02_10, None)"
  using getCurrentDateRange_end_before_start
          [of out_of_order_state date_2020_02_10 date_2020_02_05 props2020]
  by (simp add: out_of_order_state_def isDateValidAndInRange_def dateIsInRange_def
        isBetween_day_inclusive_def scenario_defs)

section \<open>Evaluating the instance\<close>

lemmas handler_defs =
  handleStartDateInputFocus_def handleEndDateInputFocus_def handleGenericInputFocus_def
  handleStartDateInputBlur_def handleEndDateInputBlur_def handleGenericInputBlur_def
  handleStartDateInputChange_def handleEndDateInputChange_def handleGenericInputChange_def
  handleGenericInputKeyDown_def handleGenericInputClick_def handleClosePopover_def
  handleDateRangeChange_def handleHoverChange_def handleDayMouseEnter_def handleIconClick_def
  blurPath_def didInputChangeToInvalidState_def

lemmas getter_defs =
  isNull_def dateIsInRange_def isDateValidAndInRange_def getDateStringForDisplay_def
  isBetween_day_inclusive_def moment_of_def moment_format_def

lemma lib_parse_ymd: "lib_parse ymd_lib t fmt = parse_ymd t"
  by (simp add: ymd_lib_def)

lemma lib_format_ymd: "lib_format ymd_lib t fmt = format_ymd t"
  by (simp add: ymd_lib_def)

lemma parse_ymd_short: "length t \<noteq> 10 \<Longrightarrow> parse_ymd t = None"
  by (simp add: parse_ymd_def)

lemma parse_ymd_2020_02_10: "parse_ymd ''2020-02-10'' = Some date_2020_02_10"
  by (simp add: parse_ymd_def digit_val_def days_in_month_def is_leap_def
        days_from_civil_def msPerDay_def date_2020_02_10_def)

lemma parse_ymd_2020_02_05: "parse_ymd ''2020-02-05'' = Some date_2020_02_05"
  by (simp add: parse_ymd_def digit_val_def days_in_month_def is_leap_def
        days_from_civil_def msPerDay_def date_2020_02_05_def)

lemma parse_ymd_2020_03_01: "parse_ymd ''2020-03-01'' = Some date_2020_03_01"
  by (simp add: parse_ymd_def digit_val_def days_in_month_def is_leap_def
        days_from_civil_def msPerDay_def date_2020_03_01_def)

lemma format_ymd_2020_02_10: "format_ymd date_2020_02_10 = ''2020-02-10''"
  by code_simp

lemma format_ymd_2020_02_05: "format_ymd date_2020_02_05 = ''2020-02-05''"
  by code_simp

lemma format_ymd_2020_03_01: "format_ymd date_2020_03_01 = ''2020-03-01''"
  by code_simp

lemma format_ymd_2020_02_29_noon: "format_ymd date_2020_02_29_noon = ''2020-02-29''"
  by code_simp

lemmas ymd_facts =
  lib_parse_ymd lib_format_ymd parse_ymd_short parse_ymd_2020_02_10 parse_ymd_2020_02_05
  parse_ymd_2020_03_01 format_ymd_2020_02_10 format_ymd_2020_02_05 format_ymd_2020_03_01
  format_ymd_2020_02_29_noon

lemma props2020_simps:
  "format props2020 = ''YYYY-MM-DD''" "minDate props2020 = Some date_2020_01_01"
  "maxDate props2020 = Some date_2020_12_31" "value_prop props2020 = None"
  "openOnFocus props2020" "selectAllOnFocus props2020"
  "invalidDateMessage props2020 = ''Invalid date''"
  "invalidEndDateMessage props2020 = ''Invalid end date''"
  "outOfRangeMessage props2020 = ''Out of range''"
  "\<not> closeOnSelection props2020" "\<not> allowUnboundedDateRange props2020"
  by (simp_all add: props2020_def defaultProps_def)

lemma day_facts:
  "dayOf date_2020_01_01 \<le> dayOf date_2020_02_10"
  "dayOf date_2020_02_10 \<le> dayOf date_2020_12_31"
  "dayOf date_2020_01_01 \<le> dayOf date_2020_02_05"
  "dayOf date_2020_02_05 \<le> dayOf date_2020_12_31"
  "dayOf date_2020_01_01 \<le> dayOf date_2020_03_01"
  "dayOf date_2020_03_01 \<le> dayOf date_2020_12_31"
  "dayOf date_2020_01_01 \<le> dayOf date_2020_02_29_noon"
  "dayOf date_2020_02_29_noon \<le> dayOf date_2020_12_31"
  "date_2020_02_05 < date_2020_02_10"
  "dayOf date_2020_02_05 \<noteq> dayOf date_2020_02_10"
  "dayOf date_2020_02_10 \<noteq> dayOf date_2020_02_05"
  "dayOf date_2020_02_29_noon \<noteq> dayOf date_2020_03_01"
  by (simp_all add: scenario_defs)

lemma initialState_props2020:
  "initialState props2020 =
     \<lparr> isOpen = False, mostRecentlyFocusedField = None,
       isStartDateInputFocused = False, startDateHoverValueString = HUndefined,
       startDateValue = Some NullInput, startDateValueString = None,
       isEndDateInputFocused = False, endDateHoverValueString = HUndefined,
       endDateValue = Some NullInput, endDateValueString = None,
       boundaryToModify = None, wasLastFocusChangeDueToHover = False \<rparr>"
  by (simp add: initialState_def getDefaultDateRange_def fromDateRangeToMomentArray_def
        fromDateToMoment_def props2020_def defaultProps_def)

lemma enter_text_2020_02_10:
  "enter_text b ''2020-02-10'' =
     [EvFocus b, EvChange b ''2'', EvChange b ''20'', EvChange b ''202'',
      EvChange b ''2020'', EvChange b ''2020-'', EvChange b ''2020-0'',
      EvChange b ''2020-02'', EvChange b ''2020-02-'', EvChange b ''2020-02-1'',
      EvChange b ''2020-02-10'', EvBlur b]"
  by (simp add: enter_text_def typing_def upt_conv_Cons)

lemma enter_text_2020_02_05:
  "enter_text b ''2020-02-05'' =
     [EvFocus b, EvChange b ''2'', EvChange b ''20'', EvChange b ''202'',
      EvChange b ''2020'', EvChange b ''2020-'', EvChange b ''2020-0'',
      EvChange b ''2020-02'', EvChange b ''2020-02-'', EvChange b ''2020-02-0'',
      EvChange b ''2020-02-05'', EvBlur b]"
  by (simp add: enter_text_def typing_def upt_conv_Cons)

lemma scenario_start_entered_eq:
  "scenario_start_entered =
     \<lparr> isOpen = True, mostRecentlyFocusedField = Some START,
       isStartDateInputFocused = False, startDateHoverValueString = HUndefined,
       startDateValue = Some (Valid date_2020_02_10),
       startDateValueString = Some ''2020-02-10'',
       isEndDateInputFocused = False, endDateHoverValueString = HUndefined,
       endDateValue = Some NullInput, endDateValueString = None,
       boundaryToModify = Some START, wasLastFocusChangeDueToHover = False \<rparr>"
  unfolding scenario_start_entered_def enter_text_2020_02_10 initialState_props2020
  by (simp add: handler_defs getter_defs props2020_simps ymd_facts day_facts)

lemma scenario_end_entered_eq:
  "scenario_end_entered =
     \<lparr> isOpen = True, mostRecentlyFocusedField = Some END,
       isStartDateInputFocused = False, startDateHoverValueString = HUndefined,
       startDateValue = Some (Valid date_2020_02_10),
       startDateValueString = Some ''2020-02-10'',
       isEndDateInputFocused = False, endDateHoverValueString = HUndefined,
       endDateValue = Some (Valid date_2020_02_05),
       endDateValueString = Some ''2020-02-05'',
       boundaryToModify = Some END, wasLastFocusChangeDueToHover = False \<rparr>"
  unfolding scenario_end_entered_def enter_text_2020_02_05 scenario_start_entered_eq
  by (simp add: handler_defs getter_defs props2020_simps ymd_facts day_facts)

lemma start_focused_state_eq:
  "start_focused_state =
     \<lparr> isOpen = True, mostRecentlyFocusedField = Some START,
       isStartDateInputFocused = True, startDateHoverValueString = HUndefined,
       startDateValue = Some NullInput, startDateValueString = Some [],
       isEndDateInputFocused = False, endDateHoverValueString = HUndefined,
       endDateValue = Some NullInput, endDateValueString = None,
       boundaryToModify = Some START, wasLastFocusChangeDueToHover = False \<rparr>"
  unfolding start_focused_state_def initialState_props2020
  by (simp add: handler_defs getter_defs props2020_simps)

section \<open>Typing and the value of the state\<close>

text \<open>
  C1 (as amended). A change event leaves the value of the other field alone. It leaves
  the value of its own field alone only when the component is controlled and the text is
  not empty, parses and is in range. Otherwise the change handler itself overwrites the
  value: with \<open>null\<close> for the empty text, and with the parsed moment (valid or not, in
  range or not) for any other text.
\<close>

theorem change_overwrites_value:
  "startDateValue (fst (handleStartDateInputChange L P s t)) =
     (if t = [] then None
      else if isValid (moment_of L (Some t) (format P)) \<and>
              dateIsInRange P (Some (moment_of L (Some t) (format P))) \<and>
              value_prop P \<noteq> None
      then startDateValue s
      else Some (moment_of L (Some t) (format P))) \<and>
   endDateValue (fst (handleStartDateInputChange L P s t)) = endDateValue s \<and>
   endDateValue (fst (handleEndDateInputChange L P s t)) =
     (if t = [] then None
      else if isValid (moment_of L (Some t) (format P)) \<and>
              dateIsInRange P (Some (moment_of L (Some t) (format P))) \<and>
              value_prop P \<noteq> None
      then endDateValue s
      else Some (moment_of L (Some t) (format P))) \<and>
   startDateValue (fst (handleEndDateInputChange L P s t)) = startDateValue s"
  by (auto simp: handleStartDateInputChange_def handleEndDateInputChange_def
        handleGenericInputChange_def Let_def)

theorem change_overwrites_value_witness:
  "startDateValue (fst (handleStartDateInputChange ymd_lib props2020 start_focused_state
     ''2020-02-10'')) = Some (Valid date_2020_02_10) \<and>
   endDateValue (fst (handleStartDateInputChange ymd_lib props2020 start_focused_state
     ''2020-02-10'')) = endDateValue start_focused_state"
  using change_overwrites_value [of ymd_lib props2020 start_focused_state "''2020-02-10''"]
  by (simp add: getter_defs props2020_simps ymd_facts day_facts)

text \<open>
  In the uncontrolled component with the start field focused and still unset, the
  keystroke that completes the text \<open>2020-02-10\<close> changes the start value of the state
  from the null-input moment to that date, before any blur.
\<close>

theorem keystroke_changes_value_counterexample:
  "isStartDateInputFocused start_focused_state \<and>
   startDateValue start_focused_state = Some NullInput \<and>
   startDateValue (fst (dispatch ymd_lib props2020 start_focused_state
     (EvChange START ''2020-02-10''))) = Some (Valid date_2020_02_10) \<and>
   isStartDateInputFocused (fst (dispatch ymd_lib props2020 start_focused_state
     (EvChange START ''2020-02-10'')))"
  unfolding start_focused_state_eq
  by (simp add: handler_defs getter_defs props2020_simps ymd_facts day_facts)

section \<open>The focus flags\<close>



lemma initialState_focus_exclusive: "focus_exclusive (initialState P)"
  by (simp add: initialState_def focus_exclusive_def Let_def split: prod.splits)

text \<open>
  The handlers alone do not keep the flags exclusive: the focus handler sets the flag of
  its own field and leaves the other one, so a focus event for the end field followed by
  one for the start field, with no blur event in between, leaves both flags set until the
  component updates.
\<close>

lemma focus_handlers_alone:
  "isStartDateInputFocused
     (run ymd_lib props2020 (initialState props2020) [EvFocus END, EvFocus START]) \<and>
   isEndDateInputFocused
     (run ymd_lib props2020 (initialState props2020) [EvFocus END, EvFocus START])"
  unfolding initialState_props2020
  by (simp add: handler_defs getter_defs props2020_simps)

text \<open>What the focus and blur handlers do to the two flags.\<close>

lemma focus_handler_flags:
  "isStartDateInputFocused (fst (handleStartDateInputFocus L P s))"
  "isEndDateInputFocused (fst (handleStartDateInputFocus L P s)) = isEndDateInputFocused s"
  "isEndDateInputFocused (fst (handleEndDateInputFocus L P s))"
  "isStartDateInputFocused (fst (handleEndDateInputFocus L P s)) = isStartDateInputFocused s"
  by (simp_all add: handleStartDateInputFocus_def handleEndDateInputFocus_def
        handleGenericInputFocus_def Let_def)

lemma blur_handler_flags:
  "\<not> isStartDateInputFocused (fst (handleStartDateInputBlur L P s))"
  "isEndDateInputFocused (fst (handleStartDateInputBlur L P s)) = isEndDateInputFocused s"
  "\<not> isEndDateInputFocused (fst (handleEndDateInputBlur L P s))"
  "isStartDateInputFocused (fst (handleEndDateInputBlur L P s)) = isStartDateInputFocused s"
  by (simp_all add: handleStartDateInputBlur_def handleEndDateInputBlur_def
        handleGenericInputBlur_def Let_def split: blur_path.splits)

lemma element_focus_START:
  assumes "\<not> disabled P" and "activeElement H \<noteq> Some START"
  shows "snd (element_focus L P START H) \<and>
         activeElement (fst (element_focus L P START H)) = Some START \<and>
         isStartDateInputFocused (component (fst (element_focus L P START H))) \<and>
         isEndDateInputFocused (component (fst (element_focus L P START H))) =
           (activeElement H = None \<and> isEndDateInputFocused (component H))"
proof (cases "activeElement H")
  case None
  with assms show ?thesis
    by (simp add: element_focus_def Let_def focus_handler_flags)
next
  case (Some old)
  with assms have "old = END" by (cases old) simp_all
  with Some assms show ?thesis
    by (simp add: element_focus_def Let_def focus_handler_flags blur_handler_flags)
qed

lemma element_focus_END:
  assumes "\<not> disabled P" and "activeElement H \<noteq> Some END"
  shows "snd (element_focus L P END H) \<and>
         activeElement (fst (element_focus L P END H)) = Some END \<and>
         isEndDateInputFocused (component (fst (element_focus L P END H))) \<and>
         isStartDateInputFocused (component (fst (element_focus L P END H))) =
           (activeElement H = None \<and> isStartDateInputFocused (component H))"
proof (cases "activeElement H")
  case None
  with assms show ?thesis
    by (simp add: element_focus_def Let_def focus_handler_flags)
next
  case (Some old)
  with assms have "old = START" by (cases old) simp_all
  with Some assms show ?thesis
    by (simp add: element_focus_def Let_def focus_handler_flags blur_handler_flags)
qed

lemma perform_RefFocus: "perform L P [RefFocus b] H = element_focus L P b H"
  by (simp add: Let_def split: prod.splits)

lemma settle_Suc:
  "settle (Suc n) L P H =
     (if snd (perform L P (componentDidUpdate (component H) (activeElement H)) H)
      then settle n L P (fst (perform L P (componentDidUpdate (component H) (activeElement H)) H))
      else Some (fst (perform L P (componentDidUpdate (component H) (activeElement H)) H)))"
  by (simp add: Let_def split: prod.splits)

lemma settle_0: "settle 0 L P H = None"
  by simp

declare settle.simps [simp del]

lemma componentDidUpdate_cases:
  obtains
    (settled) "componentDidUpdate s a = []"
      "\<not> (isStartDateInputFocused s \<and> isEndDateInputFocused s)"
  | (to_start) "componentDidUpdate s a = [RefFocus START]" "a \<noteq> Some START"
      "isStartDateInputFocused s"
  | (to_end) "componentDidUpdate s a = [RefFocus END]" "a \<noteq> Some END"
      "isEndDateInputFocused s" "\<not> (a = None \<and> isStartDateInputFocused s)"
  by (cases "isStartDateInputFocused s \<and> a \<noteq> Some START";
      cases "isEndDateInputFocused s \<and> a \<noteq> Some END")
     (auto simp: componentDidUpdate_def)

lemma settle_stops:
  "componentDidUpdate (component H) (activeElement H) = [] \<Longrightarrow> settle (Suc n) L P H = Some H"
  by (simp add: settle_Suc)

lemma settle_focus_START:
  assumes "\<not> disabled P" and "activeElement H \<noteq> Some START"
    and "componentDidUpdate (component H) (activeElement H) = [RefFocus START]"
  shows "settle (Suc n) L P H = settle n L P (fst (element_focus L P START H))"
  using assms by (simp add: settle_Suc perform_RefFocus element_focus_START)

lemma settle_focus_END:
  assumes "\<not> disabled P" and "activeElement H \<noteq> Some END"
    and "componentDidUpdate (component H) (activeElement H) = [RefFocus END]"
  shows "settle (Suc n) L P H = settle n L P (fst (element_focus L P END H))"
  using assms by (simp add: settle_Suc perform_RefFocus element_focus_END)

lemma settle_exclusive:
  assumes "\<not> disabled P"
  shows "settle n L P H = Some H' \<Longrightarrow> focus_exclusive (component H')"
proof (induction n arbitrary: H)
  case 0
  then show ?case by (simp add: settle_0)
next
  case (Suc n)
  show ?case
  proof (cases rule: componentDidUpdate_cases [of "component H" "activeElement H"])
    case settled
    with Suc.prems have "H' = H" by (simp add: settle_stops)
    with settled show ?thesis by (simp add: focus_exclusive_def)
  next
    case to_start
    with assms Suc.prems have "settle n L P (fst (element_focus L P START H)) = Some H'"
      by (simp add: settle_focus_START)
    then show ?thesis by (rule Suc.IH)
  next
    case to_end
    with assms Suc.prems have "settle n L P (fst (element_focus L P END H)) = Some H'"
      by (simp add: settle_focus_END)
    then show ?thesis by (rule Suc.IH)
  qed
qed

lemma settle_disabled: "disabled P \<Longrightarrow> settle (Suc n) L P H = Some H"
  by (cases rule: componentDidUpdate_cases [of "component H" "activeElement H"])
     (simp_all add: settle_Suc perform_RefFocus element_focus_def)

lemma settle_after_focus_END:
  assumes "\<not> disabled P" and "activeElement H \<noteq> Some END"
    and "\<not> (activeElement H = None \<and> isStartDateInputFocused (component H))"
  shows "settle (Suc n) L P (fst (element_focus L P END H)) =
           Some (fst (element_focus L P END H))"
  using assms
  by (intro settle_stops) (simp add: componentDidUpdate_def element_focus_END)

lemma settle_total: "\<exists>H'. settle (Suc (Suc (Suc n))) L P H = Some H'"
proof (cases "disabled P")
  case True
  then show ?thesis by (simp add: settle_disabled)
next
  case en: False
  show ?thesis
  proof (cases rule: componentDidUpdate_cases [of "component H" "activeElement H"])
    case settled
    then show ?thesis by (simp add: settle_stops)
  next
    case to_start
    let ?H1 = "fst (element_focus L P START H)"
    from en to_start have step: "settle (Suc (Suc (Suc n))) L P H = settle (Suc (Suc n)) L P ?H1"
      by (simp add: settle_focus_START)
    from en to_start have a1: "activeElement ?H1 = Some START"
      by (simp add: element_focus_START)
    show ?thesis
    proof (cases rule: componentDidUpdate_cases [of "component ?H1" "activeElement ?H1"])
      case settled
      then have "settle (Suc (Suc n)) L P ?H1 = Some ?H1" by (simp add: settle_stops)
      with step show ?thesis by simp
    next
      case to_start
      with a1 show ?thesis by simp
    next
      case to_end
      with en have "settle (Suc (Suc n)) L P ?H1 =
          settle (Suc n) L P (fst (element_focus L P END ?H1))"
        by (simp add: settle_focus_END)
      also from en a1 have "\<dots> = Some (fst (element_focus L P END ?H1))"
        by (intro settle_after_focus_END) simp_all
      finally show ?thesis using step by simp
    qed
  next
    case to_end
    with en have "settle (Suc (Suc (Suc n))) L P H =
        settle (Suc (Suc n)) L P (fst (element_focus L P END H))"
      by (simp add: settle_focus_END)
    also from en to_end have "\<dots> = Some (fst (element_focus L P END H))"
      by (intro settle_after_focus_END) simp_all
    finally show ?thesis by simp
  qed
qed

lemma perform_not_provoked:
  "\<not> snd (perform L P effs H) \<Longrightarrow> fst (perform L P effs H) = H"
proof (induction L P effs H rule: perform.induct)
  case (1 L P H)
  then show ?case by simp
next
  case (2 L P b es H)
  then show ?case
    by (auto simp: Let_def element_focus_def split: prod.splits if_splits)
next
  case (3 L P b es H)
  then show ?case
    by (auto simp: Let_def element_blur_def split: prod.splits if_splits)
qed simp_all

lemma no_setState_same_state:
  "\<not> calls_setState s ev \<Longrightarrow> fst (dispatch L P s ev) = s"
  by (cases ev)
     (auto simp: handleGenericInputClick_def handleIconClick_def handleDayMouseEnter_def
        handleGenericInputKeyDown_def Let_def)

lemma hover_calls_setState: "effects_before_setState ev \<Longrightarrow> calls_setState s ev"
  by (cases ev) simp_all

lemma handled_no_update:
  assumes "\<not> snd (handled L P H ev)"
  shows "component (fst (handled L P H ev)) = component H"
proof (cases "effects_before_setState ev")
  case True
  with assms show ?thesis
    by (simp add: handled_def Let_def hover_calls_setState)
next
  case False
  let ?H0 = "H\<lparr>component := fst (dispatch L P (component H) ev)\<rparr>"
  let ?m = "perform L P (snd (dispatch L P (component H) ev)) ?H0"
  from False assms have n: "\<not> calls_setState (component H) ev" "\<not> snd ?m"
    by (simp_all add: handled_def Let_def)
  from False have "fst (handled L P H ev) = fst ?m"
    by (simp add: handled_def Let_def)
  also from n(2) have "\<dots> = ?H0" by (rule perform_not_provoked)
  finally show ?thesis using n(1) by (simp add: no_setState_same_state)
qed

lemma process_exclusive:
  assumes "\<not> disabled P" and "focus_exclusive (component H)"
    and "process n L P H ev = Some H'"
  shows "focus_exclusive (component H')"
proof (cases "snd (handled L P H ev)")
  case True
  with assms(3) have "settle n L P (fst (handled L P H ev)) = Some H'"
    by (simp add: process_def Let_def)
  with assms(1) show ?thesis by (rule settle_exclusive)
next
  case False
  with assms(3) have "H' = fst (handled L P H ev)"
    by (simp add: process_def Let_def)
  with False assms(2) show ?thesis by (simp add: handled_no_update)
qed

lemma process_total: "\<exists>H'. process (Suc (Suc (Suc n))) L P H ev = Some H'"
  using settle_total [of n L P "fst (handled L P H ev)"]
  by (cases "snd (handled L P H ev)") (simp_all add: process_def Let_def)

lemma host_run_exclusive:
  assumes "\<not> disabled P"
  shows "focus_exclusive (component H) \<Longrightarrow> host_run n L P H evs = Some H' \<Longrightarrow>
         focus_exclusive (component H')"
proof (induction evs arbitrary: H)
  case Nil
  then show ?case by simp
next
  case (Cons x evs)
  obtain a ev where x: "x = (a, ev)" by (cases x)
  from Cons.prems(2) x obtain H1 where
    p: "process n L P (H\<lparr>activeElement := a\<rparr>) ev = Some H1" and
    r: "host_run n L P H1 evs = Some H'"
    by (auto split: option.splits)
  from assms Cons.prems(1) p have "focus_exclusive (component H1)"
    using process_exclusive [of P "H\<lparr>activeElement := a\<rparr>" n L ev H1] by simp
  then show ?case using r by (rule Cons.IH)
qed

lemma host_run_total: "\<exists>H'. host_run (Suc (Suc (Suc n))) L P H evs = Some H'"
proof (induction evs arbitrary: H)
  case Nil
  then show ?case by simp
next
  case (Cons x evs)
  obtain a ev where x: "x = (a, ev)" by (cases x)
  obtain H1 where "process (Suc (Suc (Suc n))) L P (H\<lparr>activeElement := a\<rparr>) ev = Some H1"
    using process_total by blast
  with x Cons.IH [of H1] show ?case by simp
qed

text \<open>
  C5. After every event processed, that is handled and followed by the update of the
  component, at most one of the two focus flags is set: from the initial state, for every
  sequence of events, in any order and with the focus of the document anywhere when each
  one arrives. A disabled control receives no event (its inputs and its icon button are
  disabled and its popover never opens). Three rounds of \<open>componentDidUpdate\<close> always
  settle the component, so the processing returns.
\<close>

theorem focus_flags_exclusive_after_update:
  "((disabled P \<longrightarrow> evs = []) \<and> host_run n L P (initial_host P) evs = Some H \<longrightarrow>
      focus_exclusive (component H)) \<and>
   (\<exists>H'. host_run (Suc (Suc (Suc n))) L P (initial_host P) evs = Some H')"
proof -
  have init: "focus_exclusive (component (initial_host P))"
    by (simp add: initial_host_def initialState_focus_exclusive)
  have "focus_exclusive (component H)"
    if "disabled P \<longrightarrow> evs = []" and "host_run n L P (initial_host P) evs = Some H"
  proof (cases "disabled P")
    case True
    with that init show ?thesis by simp
  next
    case False
    from False init that(2) show ?thesis by (rule host_run_exclusive)
  qed
  with host_run_total show ?thesis by blast
qed

lemma disabled_props2020: "\<not> disabled props2020"
  by (simp add: props2020_def defaultProps_def)

lemma synthetic_focus_run:
  "host_run (Suc (Suc (Suc 0))) ymd_lib props2020 (initial_host props2020)
     [(Some END, EvFocus END), (Some END, EvFocus START)] = Some refocused_host"
  unfolding initial_host_def initialState_props2020 refocused_host_def
  by (simp add: process_def handled_def settle_Suc componentDidUpdate_def element_focus_def
        handler_defs getter_defs props2020_simps disabled_props2020 Let_def)

theorem focus_flags_exclusive_after_update_witness:
  "\<not> disabled props2020 \<and>
   host_run (Suc (Suc (Suc 0))) ymd_lib props2020 (initial_host props2020)
     [(Some END, EvFocus END), (Some END, EvFocus START)] = Some refocused_host \<and>
   focus_exclusive (component refocused_host)"
  using focus_flags_exclusive_after_update
    [of props2020 "[(Some END, EvFocus END), (Some END, EvFocus START)]"
      "Suc (Suc (Suc 0))" ymd_lib refocused_host]
    synthetic_focus_run disabled_props2020
  by simp

section \<open>A selection in the calendar\<close>

text \<open>
  C8. \<open>handleDateRangeChange\<close> sets both values of the state from the selection. If the
  start is unset the start field is focused; else if the end is unset the end field is
  focused; else, with \<open>closeOnSelection\<close>, the popover closes and no field is focused,
  and without it the popover stays open and the field focused is the one most recently
  focused before the selection.
\<close>

theorem handleDateRangeChange_commits_and_focuses:
  assumes "handleDateRangeChange L P s (startDate, endDate) = (s', effs)"
  shows
  "startDateValue s' = Some (fromDateToMoment startDate) \<and>
   endDateValue s' = Some (fromDateToMoment endDate) \<and>
   (startDate = None \<longrightarrow> isStartDateInputFocused s' \<and> \<not> isEndDateInputFocused s') \<and>
   (startDate \<noteq> None \<and> endDate = None \<longrightarrow>
      \<not> isStartDateInputFocused s' \<and> isEndDateInputFocused s') \<and>
   (startDate \<noteq> None \<and> endDate \<noteq> None \<and> closeOnSelection P \<longrightarrow>
      \<not> isOpen s' \<and> \<not> isStartDateInputFocused s' \<and> \<not> isEndDateInputFocused s') \<and>
   (startDate \<noteq> None \<and> endDate \<noteq> None \<and> \<not> closeOnSelection P \<and>
    mostRecentlyFocusedField s = Some b \<longrightarrow>
      isOpen s' \<and> isStartDateInputFocused s' = (b = START) \<and>
      isEndDateInputFocused s' = (b = END))"
  using assms
  by (cases b) (auto simp: handleDateRangeChange_def Let_def split: if_splits)

theorem handleDateRangeChange_commits_and_focuses_witness:
  "isStartDateInputFocused
     (fst (handleDateRangeChange ymd_lib props2020 start_focused_state (None, None))) \<and>
   isEndDateInputFocused
     (fst (handleDateRangeChange ymd_lib props2020 start_focused_state
        (Some date_2020_02_05, None))) \<and>
   startDateValue
     (fst (handleDateRangeChange ymd_lib props2020 start_focused_state
        (Some date_2020_02_05, None))) = Some (Valid date_2020_02_05) \<and>
   \<not> isOpen
     (fst (handleDateRangeChange ymd_lib closing_props start_focused_state
        (Some date_2020_02_05, Some date_2020_02_10))) \<and>
   isStartDateInputFocused
     (fst (handleDateRangeChange ymd_lib props2020 start_focused_state
        (Some date_2020_02_05, Some date_2020_02_10)))"
  using
    handleDateRangeChange_commits_and_focuses [OF prod.collapse [symmetric],
      of ymd_lib props2020 start_focused_state None None START]
    handleDateRangeChange_commits_and_focuses [OF prod.collapse [symmetric],
      of ymd_lib props2020 start_focused_state "Some date_2020_02_05" None START]
    handleDateRangeChange_commits_and_focuses [OF prod.collapse [symmetric],
      of ymd_lib closing_props start_focused_state "Some date_2020_02_05"
        "Some date_2020_02_10" START]
    handleDateRangeChange_commits_and_focuses [OF prod.collapse [symmetric],
      of ymd_lib props2020 start_focused_state "Some date_2020_02_05"
        "Some date_2020_02_10" START]
  by (simp add: start_focused_state_eq closing_props_def props2020_simps fromDateToMoment_def)

text \<open>When no field was focused before, the end field is the one focused.\<close>

lemma handleDateRangeChange_never_focused:
  "mostRecentlyFocusedField s = None \<Longrightarrow> \<not> closeOnSelection P \<Longrightarrow>
   isEndDateInputFocused (fst (handleDateRangeChange L P s (Some a, Some b))) \<and>
   \<not> isStartDateInputFocused (fst (handleDateRangeChange L P s (Some a, Some b)))"
  by (simp add: handleDateRangeChange_def Let_def)

section \<open>Hovering over the calendar\<close>





section \<open>The typed scenario\<close>

lemma render_scenario_start_entered:
  "render ymd_lib props2020 scenario_start_entered =
     Inr \<lparr> startDateString = Some ''2020-02-10'', endDateString = Some [],
           startDatePlaceholder = ''Start date'', endDatePlaceholder = ''End date'',
           isStartDateInputInErrorState = False, isEndDateInputInErrorState = False,
           pickerBoundaryToModify = Some START,
           pickerValue = (Some date_2020_02_10, None), popoverIsOpen = True,
           startInputValue = ''2020-02-10'', endInputValue = [] \<rparr>"
  unfolding scenario_start_entered_eq
  by (simp add: render_def renderEndDateString_def renderStartDateString_def
        renderEndDateValue_def renderStartDateValue_def getStartDateInputPlaceholder_def
        getEndDateInputPlaceholder_def getCurrentDateRange_def fromMomentToDate_def
        toDateRange_def js_number_def areSameDay_def truthy_def
        getter_defs props2020_simps ymd_facts day_facts)

lemma render_scenario_end_entered:
  "render ymd_lib props2020 scenario_end_entered =
     Inr \<lparr> startDateString = Some ''2020-02-10'', endDateString = Some ''Invalid end date'',
           startDatePlaceholder = ''Start date'', endDatePlaceholder = ''End date'',
           isStartDateInputInErrorState = False, isEndDateInputInErrorState = True,
           pickerBoundaryToModify = Some END,
           pickerValue = (Some date_2020_02_10, None), popoverIsOpen = True,
           startInputValue = ''2020-02-10'', endInputValue = ''Invalid end date'' \<rparr>"
  unfolding scenario_end_entered_eq
  by (simp add: render_def renderEndDateString_def renderStartDateString_def
        renderEndDateValue_def renderStartDateValue_def getStartDateInputPlaceholder_def
        getEndDateInputPlaceholder_def getCurrentDateRange_def fromMomentToDate_def
        toDateRange_def js_number_def areSameDay_def truthy_def
        getter_defs props2020_simps ymd_facts day_facts)

lemma dispatch_no_callback: "filter is_callback (snd (dispatch L P s ev)) = []"
proof (cases ev)
  case (EvFocus b)
  then show ?thesis
    by (cases b) (simp_all add: handleStartDateInputFocus_def handleEndDateInputFocus_def
        handleGenericInputFocus_def Let_def)
next
  case (EvBlur b)
  then show ?thesis
    by (cases b) (simp_all add: handleStartDateInputBlur_def handleEndDateInputBlur_def
        handleGenericInputBlur_def Let_def split: blur_path.splits)
next
  case (EvChange b t)
  then show ?thesis
    by (cases b) (simp_all add: handleStartDateInputChange_def handleEndDateInputChange_def
        handleGenericInputChange_def Let_def)
next
  case (EvKeyDown k sh)
  then show ?thesis by (simp add: handleGenericInputKeyDown_def Let_def)
next
  case EvClick
  then show ?thesis by (simp add: handleGenericInputClick_def)
next
  case (EvHoverChange h)
  then show ?thesis
    by (cases h) (simp_all add: handleHoverChange_def Let_def split: prod.splits)
next
  case EvDayMouseEnter
  then show ?thesis by (simp add: handleDayMouseEnter_def Let_def)
next
  case EvIconClick
  then show ?thesis by (simp add: handleIconClick_def)
next
  case EvClosePopover
  then show ?thesis by (simp add: handleClosePopover_def)
next
  case (EvDateRangeChange r)
  then show ?thesis
    by (cases r) (simp add: handleDateRangeChange_def Let_def split: prod.splits)
qed

lemma effects_no_callback: "filter is_callback (effects L P s evs) = []"
  by (induction evs arbitrary: s) (simp_all add: dispatch_no_callback)

text \<open>
  C4. Under the format \<open>YYYY-MM-DD\<close> with bounds 2020-01-01 and 2020-12-31, from the
  empty uncontrolled component: focusing the start field, typing \<open>2020-02-10\<close> and leaving
  the field gives the start value 2020-02-10 and no field is in error. Then focusing the
  end field, typing \<open>2020-02-05\<close> and leaving it gives an end value that lies before the
  start value on another day; the end field shows the invalid-end message and is in error,
  the start field is not, and neither callback has been called.
\<close>

theorem typed_range_scenario:
  "startDateValue scenario_start_entered = Some (Valid date_2020_02_10) \<and>
   (case render ymd_lib props2020 scenario_start_entered of
      Inl err \<Rightarrow> False
    | Inr v \<Rightarrow> \<not> isStartDateInputInErrorState v \<and> \<not> isEndDateInputInErrorState v) \<and>
   startDateValue scenario_end_entered = Some (Valid date_2020_02_10) \<and>
   endDateValue scenario_end_entered = Some (Valid date_2020_02_05) \<and>
   isBefore (Valid date_2020_02_05) (Some (Valid date_2020_02_10)) \<and>
   \<not> areSameDay (Some date_2020_02_05) (Some date_2020_02_10) \<and>
   (case render ymd_lib props2020 scenario_end_entered of
      Inl err \<Rightarrow> False
    | Inr v \<Rightarrow> isEndDateInputInErrorState v \<and> \<not> isStartDateInputInErrorState v \<and>
        endDateString v = Some (invalidEndDateMessage props2020)) \<and>
   filter is_callback
     (effects ymd_lib props2020 (initialState props2020)
        (enter_text START ''2020-02-10'' @ enter_text END ''2020-02-05'')) = []"
proof -
  have "startDateValue scenario_start_entered = Some (Valid date_2020_02_10)"
    by (simp add: scenario_start_entered_eq)
  moreover have "startDateValue scenario_end_entered = Some (Valid date_2020_02_10)"
    "endDateValue scenario_end_entered = Some (Valid date_2020_02_05)"
    by (simp_all add: scenario_end_entered_eq)
  moreover have "isBefore (Valid date_2020_02_05) (Some (Valid date_2020_02_10))"
    "\<not> areSameDay (Some date_2020_02_05) (Some date_2020_02_10)"
    by (simp_all add: areSameDay_def day_facts)
  ultimately show ?thesis
    by (simp add: render_scenario_start_entered render_scenario_end_entered
          effects_no_callback props2020_simps)
qed

theorem typed_range_scenario_witness:
  "endDateValue scenario_end_entered = Some (Valid date_2020_02_05) \<and>
   isBefore (Valid date_2020_02_05) (Some (Valid date_2020_02_10))"
  using typed_range_scenario by blast

section \<open>Leaving a field\<close>

text \<open>
  The branch the blur handler takes, for either field: the text is compared with the
  string displayed for the start value of the state, whichever field is left.
\<close>

lemma blurPath_ChangedToInvalid_iff:
  "blurPath L P s v = ChangedToInvalid \<longleftrightarrow>
     (\<exists>t. v = Some t \<and> t \<noteq> [] \<and> t \<noteq> displayedValueString L P s START \<and>
          (\<not> isValid (moment_of L v (format P)) \<or>
           \<not> dateIsInRange P (Some (moment_of L v (format P)))))"
  by (cases v) (auto simp: blurPath_def didInputChangeToInvalidState_def Let_def)

text \<open>In that branch the uncontrolled component commits the rejected value and the
  controlled one commits nothing; either way the field loses its focus flag.\<close>

lemma blur_ChangedToInvalid_commit:
  assumes "blurPath L P s (endDateValueString s) = ChangedToInvalid"
  shows "value_prop P = None \<Longrightarrow>
           endDateValue (fst (handleEndDateInputBlur L P s)) =
             Some (moment_of L (endDateValueString s) (format P))"
    and "value_prop P \<noteq> None \<Longrightarrow>
           endDateValue (fst (handleEndDateInputBlur L P s)) = endDateValue s"
    and "\<not> isEndDateInputFocused (fst (handleEndDateInputBlur L P s))"
  using assms
  by (auto simp: handleEndDateInputBlur_def handleGenericInputBlur_def Let_def)

lemma typing_abc: "typing b ''abc'' = [EvChange b ''a'', EvChange b ''ab'', EvChange b ''abc'']"
  by (simp add: typing_def upt_conv_Cons)

lemma abc_typed_state_eq:
  "abc_typed_state =
     \<lparr> isOpen = True, mostRecentlyFocusedField = Some START,
       isStartDateInputFocused = True, startDateHoverValueString = HUndefined,
       startDateValue = Some Invalid, startDateValueString = Some ''abc'',
       isEndDateInputFocused = False, endDateHoverValueString = HUndefined,
       endDateValue = Some NullInput, endDateValueString = None,
       boundaryToModify = Some START, wasLastFocusChangeDueToHover = False \<rparr>"
  unfolding abc_typed_state_def typing_abc initialState_props2020
  by (simp add: handler_defs getter_defs props2020_simps ymd_facts)

lemma sticky_invalid_end_state_eq:
  "sticky_invalid_end_state =
     \<lparr> isOpen = True, mostRecentlyFocusedField = Some END,
       isStartDateInputFocused = False, startDateHoverValueString = HUndefined,
       startDateValue = Some NullInput, startDateValueString = None,
       isEndDateInputFocused = True, endDateHoverValueString = HUndefined,
       endDateValue = Some Invalid, endDateValueString = Some ''Invalid date'',
       boundaryToModify = Some END, wasLastFocusChangeDueToHover = False \<rparr>"
  unfolding sticky_invalid_end_state_def enter_text_def typing_abc initialState_props2020
  by (simp add: handler_defs getter_defs props2020_simps ymd_facts)

text \<open>
  C2, at the input where the code departs from it. The end field holds a rejected value
  and is focused again, so its text is what the field displayed, \<open>Invalid date\<close>; the
  start field is unset and displays the empty string. Leaving the end field without
  typing takes the changed-to-invalid branch, because the text differs from the string
  displayed for the start value: the value is committed again and the value string is
  reset. No callback is called.
\<close>

theorem end_blur_compares_start_string:
  "endDateValueString sticky_invalid_end_state = Some ''Invalid date'' \<and>
   displayedValueString ymd_lib props2020 sticky_invalid_end_state END = ''Invalid date'' \<and>
   displayedValueString ymd_lib props2020 sticky_invalid_end_state START = [] \<and>
   blurPath ymd_lib props2020 sticky_invalid_end_state
     (endDateValueString sticky_invalid_end_state) = ChangedToInvalid \<and>
   endDateValueString
     (fst (dispatch ymd_lib props2020 sticky_invalid_end_state (EvBlur END))) = None \<and>
   snd (dispatch ymd_lib props2020 sticky_invalid_end_state (EvBlur END)) = []"
  unfolding sticky_invalid_end_state_eq
  by (simp add: handler_defs getter_defs props2020_simps ymd_facts)

text \<open>
  C3, at the input where the code departs from it. In the uncontrolled component the text
  \<open>abc\<close> is typed into the start field. Leaving the field takes the changed-to-invalid
  branch and commits the invalid moment, and the handler calls neither \<open>onError\<close> nor
  \<open>onChange\<close>: its list of effects is empty.
\<close>

theorem rejected_text_calls_no_onError:
  "startDateValueString abc_typed_state = Some ''abc'' \<and>
   blurPath ymd_lib props2020 abc_typed_state (Some ''abc'') = ChangedToInvalid \<and>
   startDateValue (fst (dispatch ymd_lib props2020 abc_typed_state (EvBlur START))) =
     Some Invalid \<and>
   snd (dispatch ymd_lib props2020 abc_typed_state (EvBlur START)) = []"
  unfolding abc_typed_state_eq
  by (simp add: handler_defs getter_defs props2020_simps ymd_facts)

section \<open>Hovering and the focus\<close>

lemma truncDiv_eq_0_iff: "0 < y \<Longrightarrow> truncDiv x y = 0 \<longleftrightarrow> \<bar>x\<bar> < y"
  by (auto simp: truncDiv_def sgn_if zdiv_eq_0_iff)

lemma same_day_within_a_day:
  assumes "dayOf h = dayOf a"
  shows "\<bar>h - a\<bar> < msPerDay"
proof -
  have h: "h = dayOf h * msPerDay + h mod msPerDay"
    by (simp add: dayOf_def)
  have a: "a = dayOf a * msPerDay + a mod msPerDay"
    by (simp add: dayOf_def)
  have "dayOf h * msPerDay = dayOf a * msPerDay"
    using assms by simp
  with h a have "h - a = h mod msPerDay - a mod msPerDay"
    by linarith
  moreover have "0 \<le> h mod msPerDay" "h mod msPerDay < msPerDay"
    "0 \<le> a mod msPerDay" "a mod msPerDay < msPerDay"
    by (simp_all add: msPerDay_def)
  ultimately show ?thesis by linarith
qed

text \<open>
  With a start value and no end value, a hovered range that starts less than a day away
  from the start value moves the focus to the end field, and any other range moves it to
  the start field; with an end value and no start value, symmetrically. A hovered day
  that is the calendar day of the value is less than a day away from it.
\<close>

lemma hover_focus_start_selected:
  assumes "startDateValue s = Some (Valid a)" and "isNull (endDateValue s)"
  shows "snd (handleHoverChange L P s (Some (Some h, e))) =
           (if \<bar>h - a\<bar> < msPerDay then [RefFocus END] else [RefFocus START])"
  using assms
  by (simp add: handleHoverChange_def fromDateRangeToMomentArray_def fromDateToMoment_def
        Let_def isNull_def truncDiv_eq_0_iff msPerDay_def)

lemma hover_focus_end_selected:
  assumes "endDateValue s = Some (Valid a)" and "isNull (startDateValue s)"
  shows "snd (handleHoverChange L P s (Some (b, Some h))) =
           (if \<bar>h - a\<bar> < msPerDay then [RefFocus START] else [RefFocus END])"
  using assms
  by (simp add: handleHoverChange_def fromDateRangeToMomentArray_def fromDateToMoment_def
        Let_def isNull_def truncDiv_eq_0_iff msPerDay_def)

lemma hover_focus_same_day:
  assumes "startDateValue s = Some (Valid a)" and "isNull (endDateValue s)"
    and "dayOf h = dayOf a"
  shows "snd (handleHoverChange L P s (Some (Some h, e))) = [RefFocus END]"
  using assms by (simp add: hover_focus_start_selected same_day_within_a_day)

lemma hover_no_focus:
  assumes "isNull (startDateValue s) = isNull (endDateValue s)"
  shows "snd (handleHoverChange L P s h) = []"
  using assms
  by (cases h) (auto simp: handleHoverChange_def Let_def split: prod.splits)

lemma enter_text_2020_03_01:
  "enter_text b ''2020-03-01'' =
     [EvFocus b, EvChange b ''2'', EvChange b ''20'', EvChange b ''202'',
      EvChange b ''2020'', EvChange b ''2020-'', EvChange b ''2020-0'',
      EvChange b ''2020-03'', EvChange b ''2020-03-'', EvChange b ''2020-03-0'',
      EvChange b ''2020-03-01'', EvBlur b]"
  by (simp add: enter_text_def typing_def upt_conv_Cons)

lemma hover_start_state_eq:
  "hover_start_state =
     \<lparr> isOpen = True, mostRecentlyFocusedField = Some START,
       isStartDateInputFocused = False, startDateHoverValueString = HUndefined,
       startDateValue = Some (Valid date_2020_03_01),
       startDateValueString = Some ''2020-03-01'',
       isEndDateInputFocused = False, endDateHoverValueString = HUndefined,
       endDateValue = Some NullInput, endDateValueString = None,
       boundaryToModify = Some START, wasLastFocusChangeDueToHover = False \<rparr>"
  unfolding hover_start_state_def enter_text_2020_03_01 initialState_props2020
  by (simp add: handler_defs getter_defs props2020_simps ymd_facts day_facts)

text \<open>
  C7, at the input where the code departs from it. The start value is 1 March 2020 at
  midnight, as typed, and the end is unset. The hovered range starts at noon of
  29 February, another calendar day, twelve hours before the start value. The difference
  in days truncates to zero, so the handler takes the hovered range to start on the
  selected start date and focuses the end field.
\<close>

theorem hover_day_before_focuses_end:
  "startDateValue hover_start_state = Some (Valid date_2020_03_01) \<and>
   isNull (endDateValue hover_start_state) \<and>
   \<not> areSameDay (Some date_2020_02_29_noon) (Some date_2020_03_01) \<and>
   date_2020_02_29_noon < date_2020_03_01 \<and>
   snd (handleHoverChange ymd_lib props2020 hover_start_state
          (Some (Some date_2020_02_29_noon, Some date_2020_03_01))) = [RefFocus END]"
proof -
  have s: "startDateValue hover_start_state = Some (Valid date_2020_03_01)"
    and e: "isNull (endDateValue hover_start_state)"
    by (simp_all add: hover_start_state_eq isNull_def)
  have d: "\<not> areSameDay (Some date_2020_02_29_noon) (Some date_2020_03_01)"
    "date_2020_02_29_noon < date_2020_03_01"
    "\<bar>date_2020_02_29_noon - date_2020_03_01\<bar> < msPerDay"
    by (simp_all add: areSameDay_def scenario_defs)
  from s e d show ?thesis
    by (simp add: hover_focus_start_selected)
qed

end
